theory Spec2Isabelle
  imports Main
begin

section \<open>The Light smart account of permissionless.js\<close>

text \<open>
  A shallow embedding of \<^verbatim>\<open>packages/permissionless/accounts/light/toLightSmartAccount.ts\<close>.
  The file builds the implementation object that is handed to viem's \<^verbatim>\<open>toSmartAccount\<close>: a
  set of asynchronous methods closing over the constructor's parameters and over two mutable
  variables, \<^verbatim>\<open>accountAddress\<close> and \<^verbatim>\<open>chainId\<close>. The methods are modelled by explicit
  state passing; every exception is a value of type \<open>error\<close>; the collaborators the file
  calls (the RPC client, the owner's signer, viem's hashing and ABI encoding) are the fields
  of a record \<open>world\<close>, so that every theorem holds for whatever they compute.
  What \<^verbatim>\<open>toSmartAccount\<close> itself adds around the object is viem's and is not modelled,
  nor is \<^verbatim>\<open>getNonce\<close>, which only forwards to \<^verbatim>\<open>getAccountNonce\<close>. Calls are
  sequential: a method runs to its end before the next one starts.
\<close>

subsection \<open>Values\<close>

text \<open>
  viem's \<^verbatim>\<open>Hex\<close> and \<^verbatim>\<open>Address\<close> are the template type \<^verbatim>\<open>`0x${string}`\<close>: the text
  \<^verbatim>\<open>0x\<close> followed by digits. \<open>Hex ds\<close> stands for the text \<^verbatim>\<open>0x\<close> followed by \<open>ds\<close>.
\<close>

datatype hex = Hex string

fun digits :: "hex \<Rightarrow> string" where
  "digits (Hex ds) = ds"

definition hex_text :: "hex \<Rightarrow> string" where
  "hex_text h = ''0x'' @ digits h"

text \<open>viem's \<^verbatim>\<open>size\<close> of a hex value, in bytes: \<^verbatim>\<open>Math.ceil((value.length - 2) / 2)\<close>.\<close>

definition size_hex :: "hex \<Rightarrow> nat" where
  "size_hex h = (length (hex_text h) - 2 + 1) div 2"

text \<open>
  viem's \<^verbatim>\<open>concat\<close> on hex values:
  \<^verbatim>\<open>`0x${values.reduce((acc, x) => acc + x.replace("0x", ""), "")}`\<close>.
\<close>

definition concat_hex :: "hex list \<Rightarrow> hex" where
  "concat_hex hs = Hex (concat (map digits hs))"

text \<open>
  Exceptions. \<open>Error m\<close> is \<^verbatim>\<open>throw new Error(m)\<close> written in the file itself;
  \<open>TypeError m\<close> is the exception the JavaScript runtime raises on a property read of
  \<^verbatim>\<open>undefined\<close>; \<open>External m\<close> is an exception raised inside a collaborator and
  propagated unchanged.
\<close>

datatype error = Error string | TypeError string | External string

fun external :: "string + 'a \<Rightarrow> error + 'a" where
  "external (Inl m) = Inl (External m)"
| "external (Inr v) = Inr v"

text \<open>
  JavaScript truthiness, as the two memoisation tests use it. A string is falsy exactly when
  it is empty and a number exactly when it is zero; \<^verbatim>\<open>undefined\<close> is falsy.
\<close>

definition truthy_address :: "hex option \<Rightarrow> bool" where
  "truthy_address a = (case a of None \<Rightarrow> False | Some h \<Rightarrow> hex_text h \<noteq> [])"

definition truthy_number :: "int option \<Rightarrow> bool" where
  "truthy_number n = (case n of None \<Rightarrow> False | Some k \<Rightarrow> k \<noteq> 0)"

subsection \<open>ABI items and calls\<close>

text \<open>An ABI parameter is (internalType, name, type).\<close>

type_synonym abi_parameter = "string \<times> string \<times> string"

record abi_function =
  fn_inputs :: "abi_parameter list"
  fn_name :: string
  fn_outputs :: "abi_parameter list"
  fn_stateMutability :: string
  fn_type :: string

datatype abi_value =
    AbiAddress hex
  | AbiUint int
  | AbiBytes hex
  | AbiArray "abi_value list"

definition createAccount_abi :: abi_function where
  "createAccount_abi =
     \<lparr> fn_inputs = [(''address'', ''owner'', ''address''), (''uint256'', ''salt'', ''uint256'')],
       fn_name = ''createAccount'',
       fn_outputs = [(''contract LightAccount'', ''ret'', ''address'')],
       fn_stateMutability = ''nonpayable'',
       fn_type = ''function'' \<rparr>"

definition executeBatch_abi :: abi_function where
  "executeBatch_abi =
     \<lparr> fn_inputs = [(''address[]'', ''dest'', ''address[]''),
                    (''uint256[]'', ''value'', ''uint256[]''),
                    (''bytes[]'', ''func'', ''bytes[]'')],
       fn_name = ''executeBatch'',
       fn_outputs = [],
       fn_stateMutability = ''nonpayable'',
       fn_type = ''function'' \<rparr>"

definition execute_abi :: abi_function where
  "execute_abi =
     \<lparr> fn_inputs = [(''address'', ''dest'', ''address''),
                    (''uint256'', ''value'', ''uint256''),
                    (''bytes'', ''func'', ''bytes'')],
       fn_name = ''execute'',
       fn_outputs = [],
       fn_stateMutability = ''nonpayable'',
       fn_type = ''function'' \<rparr>"

text \<open>A call of \<^verbatim>\<open>encodeCalls\<close>: \<^verbatim>\<open>to\<close>, and the optional \<^verbatim>\<open>value\<close> and \<^verbatim>\<open>data\<close>.\<close>

record call =
  call_to :: hex
  call_value :: "int option"
  call_data :: "hex option"

subsection \<open>Typed data, messages, user operations\<close>

datatype td_value = TdHex hex | TdString string | TdNumber int | TdBool bool

record typed_data_domain =
  dom_chainId :: "int option"
  dom_name :: "string option"
  dom_verifyingContract :: "hex option"
  dom_version :: "string option"

record typed_data =
  td_domain :: typed_data_domain
  td_types :: "(string \<times> (string \<times> string) list) list"
  td_message :: "(string \<times> td_value) list"
  td_primaryType :: string

text \<open>viem's \<^verbatim>\<open>SignableMessage\<close>: a string, or \<^verbatim>\<open>{ raw: Hex }\<close>.\<close>

datatype signable_message = MessageString string | MessageRaw hex

text \<open>
  A user operation. Only the signature field is touched by this file; the fields whose
  layout depends on the entry-point version are kept as an uninterpreted list.
\<close>

record user_operation =
  uo_sender :: hex
  uo_nonce :: int
  uo_callData :: hex
  uo_signature :: hex
  uo_rest :: "(string \<times> string) list"

text \<open>
  The argument of \<^verbatim>\<open>signUserOperation\<close>: a user operation and an optional
  \<^verbatim>\<open>chainId\<close>, taken apart by
  \<^verbatim>\<open>const { chainId = await getMemoizedChainId(), ...userOperation } = parameters\<close>.
\<close>

record sign_user_operation_parameters =
  sp_chainId :: "int option"
  sp_userOperation :: user_operation

subsection \<open>The collaborators\<close>

text \<open>
  Everything the file imports. A collaborator that goes to the network or to the owner's key
  may answer differently each time it is asked and may fail: it takes the number of
  interactions that have happened before (the length of the trace below) and returns either
  a failure message or a value. The three hashing functions are synchronous and answer the
  same way every time, but they check their argument and may throw: they return a failure
  message or a hash.
\<close>

record world =
  client_chain :: "int option"
  rpc_getChainId :: "nat \<Rightarrow> string + int"
  rpc_getSenderAddress :: "nat \<Rightarrow> hex \<Rightarrow> hex \<Rightarrow> hex \<Rightarrow> string + hex"
  owner_address :: hex
  owner_signTypedData :: "nat \<Rightarrow> typed_data \<Rightarrow> string + hex"
  owner_signMessage :: "nat \<Rightarrow> signable_message \<Rightarrow> string + hex"
  hashMessage :: "signable_message \<Rightarrow> string + hex"
  hashTypedData :: "typed_data \<Rightarrow> string + hex"
  getUserOperationHash :: "user_operation \<Rightarrow> hex \<Rightarrow> string \<Rightarrow> int \<Rightarrow> string + hex"
  encodeFunctionData :: "abi_function \<Rightarrow> string \<Rightarrow> abi_value list \<Rightarrow> string + hex"

text \<open>
  \<open>client_chain\<close> is \<^verbatim>\<open>client.chain\<close> reduced to its \<^verbatim>\<open>id\<close> (\<open>None\<close> when
  \<^verbatim>\<open>client.chain\<close> is undefined). \<open>rpc_getChainId\<close> is
  \<^verbatim>\<open>getAction(client, getChainId, "getChainId")({})\<close>; \<open>rpc_getSenderAddress\<close> is
  \<^verbatim>\<open>getSenderAddress(client, { factory, factoryData, entryPointAddress })\<close>;
  \<open>owner_signTypedData\<close> is \<^verbatim>\<open>owner.signTypedData\<close>; \<open>owner_signMessage\<close> is
  \<^verbatim>\<open>signMessage(client, { account: owner, message })\<close> of \<^verbatim>\<open>viem/actions\<close>.
  \<open>getUserOperationHash\<close> takes the operation, the entry-point address, the entry-point
  version, which selects its hashing rule, and the chain id.
\<close>

text \<open>The interactions with the network and with the owner's key, each with its answer.\<close>

datatype event =
    GetChainId "string + int"
  | GetSenderAddress hex hex hex "string + hex"
  | OwnerSignTypedData typed_data "string + hex"
  | OwnerSignMessage signable_message "string + hex"

subsection \<open>Construction\<close>

datatype abi = entryPoint06Abi | entryPoint07Abi

definition entryPoint07Address :: hex where
  "entryPoint07Address = Hex ''0000000071727De22E5E9d8BAf0edAc6f37da032''"

text \<open>
  \<^verbatim>\<open>parameters.entryPoint\<close>. Its three fields are read through \<^verbatim>\<open>?.\<close> and
  \<^verbatim>\<open>??\<close>, so each may be missing at run time.
\<close>

record entry_point_parameter =
  epp_address :: "hex option"
  epp_abi :: "abi option"
  epp_version :: "string option"

record parameters =
  par_entryPoint :: "entry_point_parameter option"
  par_version :: string
  par_factoryAddress :: "hex option"
  par_index :: "int option"
  par_address :: "hex option"
  par_nonceKey :: "int option"

record entry_point =
  ep_address :: hex
  ep_abi :: abi
  ep_version :: string

text \<open>
  The value of \<^verbatim>\<open>parameters.entryPoint?.abi ?? (parameters.entryPoint?.version ?? "0.7") === "0.6"\<close>
  is either an ABI (an array, always truthy) or a boolean.
\<close>

datatype abi_or_bool = IsAbi abi | IsBool bool

fun truthy_abi_or_bool :: "abi_or_bool \<Rightarrow> bool" where
  "truthy_abi_or_bool (IsAbi a) = True"
| "truthy_abi_or_bool (IsBool b) = b"

definition optional_chain :: "'a option \<Rightarrow> ('a \<Rightarrow> 'b option) \<Rightarrow> 'b option" where
  "optional_chain obj field = (case obj of None \<Rightarrow> None | Some x \<Rightarrow> field x)"

definition nullish :: "'a option \<Rightarrow> 'a \<Rightarrow> 'a" where
  "nullish v d = (case v of None \<Rightarrow> d | Some x \<Rightarrow> x)"

text \<open>
  The object literal \<^verbatim>\<open>entryPoint\<close>. In JavaScript \<^verbatim>\<open>===\<close> binds tighter than
  \<^verbatim>\<open>??\<close>, which binds tighter than \<^verbatim>\<open>? :\<close>, so the \<^verbatim>\<open>abi\<close> field is
  \<^verbatim>\<open>(abi ?? (version === "0.6")) ? entryPoint06Abi : entryPoint07Abi\<close>.
\<close>

definition entryPoint_of :: "parameters \<Rightarrow> entry_point" where
  "entryPoint_of p =
     \<lparr> ep_address = nullish (optional_chain (par_entryPoint p) epp_address) entryPoint07Address,
       ep_abi =
         (if truthy_abi_or_bool
               (nullish (map_option IsAbi (optional_chain (par_entryPoint p) epp_abi))
                  (IsBool (nullish (optional_chain (par_entryPoint p) epp_version) ''0.7'' = ''0.6'')))
          then entryPoint06Abi else entryPoint07Abi),
       ep_version = nullish (optional_chain (par_entryPoint p) epp_version) ''0.7'' \<rparr>"

definition LIGHT_VERSION_TO_ADDRESSES_MAP :: "string \<Rightarrow> hex option" where
  "LIGHT_VERSION_TO_ADDRESSES_MAP =
     [''1.1.0'' \<mapsto> Hex ''00004EC70002a32400f8ae005A26081065620D20'',
      ''2.0.0'' \<mapsto> Hex ''0000000000400CdFef5E2714E63d8040b700BC24'']"

text \<open>
  \<^verbatim>\<open>_factoryAddress ?? LIGHT_VERSION_TO_ADDRESSES_MAP[lightAccountVersion].factoryAddress\<close>:
  the table is only read when no factory address was given, and reading
  \<^verbatim>\<open>.factoryAddress\<close> of a missing entry raises a TypeError.
\<close>

definition getDefaultAddresses :: "string \<Rightarrow> hex option \<Rightarrow> error + hex" where
  "getDefaultAddresses lightAccountVersion factoryAddress' =
     (case factoryAddress' of
        Some f \<Rightarrow> Inr f
      | None \<Rightarrow>
          (case LIGHT_VERSION_TO_ADDRESSES_MAP lightAccountVersion of
             None \<Rightarrow> Inl (TypeError ''Cannot read properties of undefined (reading 'factoryAddress')'')
           | Some f \<Rightarrow> Inr f))"

text \<open>The variables the methods close over: the constants of the closure ...\<close>

record light_account =
  la_version :: string
  la_index :: int
  la_nonceKey :: "int option"
  la_entryPoint :: entry_point
  la_factoryAddress :: hex

text \<open>
  ... and the two mutable ones, \<^verbatim>\<open>let accountAddress: Address | undefined = address\<close> and
  \<^verbatim>\<open>let chainId: number\<close>, together with the trace of interactions (a ghost field: no
  method reads it but to number the next interaction).
\<close>

record account_state =
  accountAddress :: "hex option"
  chainId :: "int option"
  trace :: "event list"

definition toLightSmartAccount :: "parameters \<Rightarrow> error + light_account \<times> account_state" where
  "toLightSmartAccount p =
     (case getDefaultAddresses (par_version p) (par_factoryAddress p) of
        Inl e \<Rightarrow> Inl e
      | Inr factoryAddress \<Rightarrow>
          Inr (\<lparr> la_version = par_version p,
                 la_index = nullish (par_index p) 0,
                 la_nonceKey = par_nonceKey p,
                 la_entryPoint = entryPoint_of p,
                 la_factoryAddress = factoryAddress \<rparr>,
               \<lparr> accountAddress = par_address p, chainId = None, trace = [] \<rparr>))"

subsection \<open>The methods\<close>

definition getAccountInitCode :: "world \<Rightarrow> hex \<Rightarrow> int \<Rightarrow> error + hex" where
  "getAccountInitCode w owner index =
     (if hex_text owner = [] then Inl (Error ''Owner account not found'')
      else external (encodeFunctionData w createAccount_abi ''createAccount''
                       [AbiAddress owner, AbiUint index]))"

definition getMemoizedChainId :: "world \<Rightarrow> account_state \<Rightarrow> (error + int) \<times> account_state" where
  "getMemoizedChainId w st =
     (case (if truthy_number (chainId st) then chainId st else None) of
        Some c \<Rightarrow> (Inr c, st)
      | None \<Rightarrow>
          (case client_chain w of
             Some c \<Rightarrow> (Inr c, st\<lparr>chainId := Some c\<rparr>)
           | None \<Rightarrow>
               (let r = rpc_getChainId w (length (trace st));
                    st1 = st\<lparr>trace := trace st @ [GetChainId r]\<rparr>
                in case r of
                     Inl m \<Rightarrow> (Inl (External m), st1)
                   | Inr c \<Rightarrow> (Inr c, st1\<lparr>chainId := Some c\<rparr>))))"

definition getFactoryArgs :: "light_account \<Rightarrow> world \<Rightarrow> error + hex \<times> hex" where
  "getFactoryArgs a w =
     (case getAccountInitCode w (owner_address w) (la_index a) of
        Inl e \<Rightarrow> Inl e
      | Inr factoryData \<Rightarrow> Inr (la_factoryAddress a, factoryData))"

definition getAddress :: "light_account \<Rightarrow> world \<Rightarrow> account_state \<Rightarrow> (error + hex) \<times> account_state" where
  "getAddress a w st =
     (case (if truthy_address (accountAddress st) then accountAddress st else None) of
        Some addr \<Rightarrow> (Inr addr, st)
      | None \<Rightarrow>
          (case getFactoryArgs a w of
             Inl e \<Rightarrow> (Inl e, st)
           | Inr (factory, factoryData) \<Rightarrow>
               (let r = rpc_getSenderAddress w (length (trace st)) factory factoryData
                          (ep_address (la_entryPoint a));
                    st1 = st\<lparr>trace := trace st @
                            [GetSenderAddress factory factoryData (ep_address (la_entryPoint a)) r]\<rparr>
                in case r of
                     Inl m \<Rightarrow> (Inl (External m), st1)
                   | Inr addr \<Rightarrow> (Inr addr, st1\<lparr>accountAddress := Some addr\<rparr>))))"

text \<open>
  \<^verbatim>\<open>encodeCalls\<close>. With an empty list \<^verbatim>\<open>calls.length > 1\<close> is false and the argument
  list of the second \<^verbatim>\<open>encodeFunctionData\<close> reads \<^verbatim>\<open>calls[0].to\<close> of
  \<^verbatim>\<open>undefined\<close>, which raises before the encoder is entered.
\<close>

definition encodeCalls :: "world \<Rightarrow> call list \<Rightarrow> account_state \<Rightarrow> (error + hex) \<times> account_state" where
  "encodeCalls w calls st =
     (if length calls > 1 then
        (external (encodeFunctionData w executeBatch_abi ''executeBatch''
           [AbiArray (map (\<lambda>a. AbiAddress (call_to a)) calls),
            AbiArray (map (\<lambda>a. AbiUint (nullish (call_value a) 0)) calls),
            AbiArray (map (\<lambda>a. AbiBytes (nullish (call_data a) (Hex []))) calls)]), st)
      else
        (case calls of
           [] \<Rightarrow> (Inl (TypeError ''Cannot read properties of undefined (reading 'to')''), st)
         | c # _ \<Rightarrow>
             (external (encodeFunctionData w execute_abi ''execute''
                [AbiAddress (call_to c),
                 AbiUint (nullish (call_value c) 0),
                 AbiBytes (nullish (call_data c) (Hex []))]), st)))"

text \<open>\<^verbatim>\<open>enum SignatureType { EOA = "0x00" }\<close>\<close>

definition SignatureType_EOA :: hex where
  "SignatureType_EOA = Hex ''00''"

definition stub_signature :: hex where
  "stub_signature = Hex ''fffffffffffffffffffffffffffffff0000000000000000000000000000000007aaaaaaaaaaaaaaaaaaaaaaaaaaaaaaaaaaaaaaaaaaaaaaaaaaaaaaaaaaaaaaa1c''"

definition getStubSignature :: "light_account \<Rightarrow> account_state \<Rightarrow> (error + hex) \<times> account_state" where
  "getStubSignature a st =
     (let signature = stub_signature
      in if la_version a = ''1.1.0'' then (Inr signature, st)
         else if la_version a = ''2.0.0'' then (Inr (concat_hex [SignatureType_EOA, signature]), st)
         else (Inl (Error ''Unknown Light Account version''), st))"

text \<open>The typed data \<^verbatim>\<open>signWith1271WrapperV1\<close> hands to \<^verbatim>\<open>signer.signTypedData\<close>.\<close>

definition LightAccountMessage_typed_data :: "int \<Rightarrow> hex \<Rightarrow> hex \<Rightarrow> typed_data" where
  "LightAccountMessage_typed_data chain accountAddr hashedMessage =
     \<lparr> td_domain = \<lparr> dom_chainId = Some chain,
                     dom_name = Some ''LightAccount'',
                     dom_verifyingContract = Some accountAddr,
                     dom_version = Some ''1'' \<rparr>,
       td_types = [(''LightAccountMessage'', [(''message'', ''bytes'')])],
       td_message = [(''message'', TdHex hashedMessage)],
       td_primaryType = ''LightAccountMessage'' \<rparr>"

definition signWith1271WrapperV1 ::
  "world \<Rightarrow> int \<Rightarrow> hex \<Rightarrow> hex \<Rightarrow> account_state \<Rightarrow> (error + hex) \<times> account_state" where
  "signWith1271WrapperV1 w chain accountAddr hashedMessage st =
     (let td = LightAccountMessage_typed_data chain accountAddr hashedMessage;
          r = owner_signTypedData w (length (trace st)) td
      in (external r, st\<lparr>trace := trace st @ [OwnerSignTypedData td r]\<rparr>))"

text \<open>
  \<^verbatim>\<open>signMessage\<close>. The arguments of \<^verbatim>\<open>signWith1271WrapperV1\<close> are evaluated from left
  to right: the chain id, the address, then the hash of the message; only then is the owner
  asked.
\<close>

definition signMessage ::
  "light_account \<Rightarrow> world \<Rightarrow> signable_message \<Rightarrow> account_state \<Rightarrow> (error + hex) \<times> account_state" where
  "signMessage a w message st =
     (case getMemoizedChainId w st of
        (Inl e, st1) \<Rightarrow> (Inl e, st1)
      | (Inr chain, st1) \<Rightarrow>
          (case getAddress a w st1 of
             (Inl e, st2) \<Rightarrow> (Inl e, st2)
           | (Inr addr, st2) \<Rightarrow>
               (case external (hashMessage w message) of
                  Inl e \<Rightarrow> (Inl e, st2)
                | Inr hashed \<Rightarrow>
                    (case signWith1271WrapperV1 w chain addr hashed st2 of
                       (Inl e, st3) \<Rightarrow> (Inl e, st3)
                     | (Inr signature, st3) \<Rightarrow>
                         (if la_version a = ''1.1.0'' then (Inr signature, st3)
                          else if la_version a = ''2.0.0''
                            then (Inr (concat_hex [SignatureType_EOA, signature]), st3)
                          else (Inl (Error ''Unknown Light Account version''), st3))))))"

text \<open>\<^verbatim>\<open>sign({ hash })\<close> passes the hash on as a string message.\<close>

definition sign ::
  "light_account \<Rightarrow> world \<Rightarrow> hex \<Rightarrow> account_state \<Rightarrow> (error + hex) \<times> account_state" where
  "sign a w hash st = signMessage a w (MessageString (hex_text hash)) st"

definition signTypedData ::
  "light_account \<Rightarrow> world \<Rightarrow> typed_data \<Rightarrow> account_state \<Rightarrow> (error + hex) \<times> account_state" where
  "signTypedData a w typedData st =
     (case getMemoizedChainId w st of
        (Inl e, st1) \<Rightarrow> (Inl e, st1)
      | (Inr chain, st1) \<Rightarrow>
          (case getAddress a w st1 of
             (Inl e, st2) \<Rightarrow> (Inl e, st2)
           | (Inr addr, st2) \<Rightarrow>
               (case external (hashTypedData w typedData) of
                  Inl e \<Rightarrow> (Inl e, st2)
                | Inr hashed \<Rightarrow>
                    (case signWith1271WrapperV1 w chain addr hashed st2 of
                       (Inl e, st3) \<Rightarrow> (Inl e, st3)
                     | (Inr signature, st3) \<Rightarrow>
                         (if la_version a = ''1.1.0'' then (Inr signature, st3)
                          else if la_version a = ''2.0.0''
                            then (Inr (concat_hex [SignatureType_EOA, signature]), st3)
                          else (Inl (Error ''Unknown Light Account version''), st3))))))"

text \<open>
  \<^verbatim>\<open>signUserOperation\<close>. The default of the destructuring is evaluated only when
  \<^verbatim>\<open>parameters.chainId\<close> is undefined. The hash is computed before the owner is asked;
  when the hashing throws, the owner is not asked.
\<close>

definition signUserOperation ::
  "light_account \<Rightarrow> world \<Rightarrow> sign_user_operation_parameters \<Rightarrow> account_state
     \<Rightarrow> (error + hex) \<times> account_state" where
  "signUserOperation a w params st =
     (case (case sp_chainId params of
              Some c \<Rightarrow> (Inr c, st)
            | None \<Rightarrow> getMemoizedChainId w st) of
        (Inl e, st1) \<Rightarrow> (Inl e, st1)
      | (Inr chain, st1) \<Rightarrow>
          (case external (getUserOperationHash w
                            ((sp_userOperation params)\<lparr>uo_signature := Hex []\<rparr>)
                            (ep_address (la_entryPoint a))
                            (ep_version (la_entryPoint a))
                            chain) of
             Inl e \<Rightarrow> (Inl e, st1)
           | Inr hash \<Rightarrow>
               (let r = owner_signMessage w (length (trace st1)) (MessageRaw hash);
                    st2 = st1\<lparr>trace := trace st1 @ [OwnerSignMessage (MessageRaw hash) r]\<rparr>
                in case external r of
                     Inl e \<Rightarrow> (Inl e, st2)
                   | Inr signature \<Rightarrow>
                       (if la_version a = ''1.1.0'' then (Inr signature, st2)
                        else if la_version a = ''2.0.0''
                          then (Inr (concat_hex [SignatureType_EOA, signature]), st2)
                        else (Inl (Error ''Unknown Light Account version''), st2)))))"

subsection \<open>A concrete world\<close>

text \<open>
  One instance of the collaborators, on which the statements below are evaluated: a client
  with no static chain whose RPC reports chain 1 and derives a fixed sender address, and an
  owner whose two signing methods return recognisably different signatures. Its stand-in for
  \<^verbatim>\<open>getUserOperationHash\<close> accepts the versions 0.6 and 0.7 only and lets the version, the
  chain id and the operation's signature field show in the hash; its stand-in for the ABI
  encoder returns the selector of the function.
\<close>

definition sample_owner :: hex where
  "sample_owner = Hex ''f39Fd6e51aad88F6F4ce6aB8827279cffFb92266''"

definition sample_sender :: hex where
  "sample_sender = Hex ''a0Ee7A142d267C1f36714E4a8F75612F20a79720''"

definition other_sender :: hex where
  "other_sender = Hex ''70997970C51812dc3A010C7d01b50e0d17dc79C8''"

definition sample_world :: world where
  "sample_world =
     \<lparr> client_chain = None,
       rpc_getChainId = (\<lambda>t. Inr 1),
       rpc_getSenderAddress = (\<lambda>t factory factoryData ep. Inr sample_sender),
       owner_address = sample_owner,
       owner_signTypedData = (\<lambda>t td. Inr (Hex ''1271'')),
       owner_signMessage = (\<lambda>t m. Inr (Hex ''e191'')),
       hashMessage = (\<lambda>m. Inr (Hex ''aa'')),
       hashTypedData = (\<lambda>td. Inr (Hex ''bb'')),
       getUserOperationHash =
         (\<lambda>uo ep v c.
            if v = ''0.6'' \<or> v = ''0.7''
            then Inr (Hex ((if v = ''0.6'' then ''06'' else ''07'')
                           @ (if c = 1 then ''c1'' else ''c0'')
                           @ digits (uo_signature uo)))
            else Inl ''entryPointVersion not supported''),
       encodeFunctionData =
         (\<lambda>f n args.
            Inr (Hex (if n = ''createAccount'' then ''5fbfb9cf''
                      else if n = ''execute'' then ''b61d27f6''
                      else ''47e1da2a''))) \<rparr>"

text \<open>A version 2.0.0 account on the default entry point 0.7 ...\<close>

definition sample_parameters :: parameters where
  "sample_parameters =
     \<lparr> par_entryPoint = None,
       par_version = ''2.0.0'',
       par_factoryAddress = None,
       par_index = None,
       par_address = None,
       par_nonceKey = None \<rparr>"

definition sample_account :: light_account where
  "sample_account =
     \<lparr> la_version = ''2.0.0'',
       la_index = 0,
       la_nonceKey = None,
       la_entryPoint = \<lparr> ep_address = entryPoint07Address, ep_abi = entryPoint07Abi,
                         ep_version = ''0.7'' \<rparr>,
       la_factoryAddress = Hex ''0000000000400CdFef5E2714E63d8040b700BC24'' \<rparr>"

text \<open>... and a version 1.1.0 account on the entry point 0.6.\<close>

definition entryPoint06Address :: hex where
  "entryPoint06Address = Hex ''5FF137D4b0FDCD49DcA30c7CF57E578a026d2789''"

definition sample_parameters_v1 :: parameters where
  "sample_parameters_v1 =
     \<lparr> par_entryPoint = Some \<lparr> epp_address = Some entryPoint06Address,
                              epp_abi = Some entryPoint06Abi,
                              epp_version = Some ''0.6'' \<rparr>,
       par_version = ''1.1.0'',
       par_factoryAddress = None,
       par_index = None,
       par_address = None,
       par_nonceKey = None \<rparr>"

definition sample_account_v1 :: light_account where
  "sample_account_v1 =
     \<lparr> la_version = ''1.1.0'',
       la_index = 0,
       la_nonceKey = None,
       la_entryPoint = \<lparr> ep_address = entryPoint06Address, ep_abi = entryPoint06Abi,
                         ep_version = ''0.6'' \<rparr>,
       la_factoryAddress = Hex ''00004EC70002a32400f8ae005A26081065620D20'' \<rparr>"

definition initial_state :: account_state where
  "initial_state = \<lparr> accountAddress = None, chainId = None, trace = [] \<rparr>"

text \<open>
  A user operation with the fields both entry-point versions ask for, carrying a stub in
  its signature field.
\<close>

definition sample_user_operation :: user_operation where
  "sample_user_operation =
     \<lparr> uo_sender = sample_sender,
       uo_nonce = 0,
       uo_callData = Hex [],
       uo_signature = Hex ''ffff'',
       uo_rest = [(''callGasLimit'', ''100000''),
                  (''verificationGasLimit'', ''200000''),
                  (''preVerificationGas'', ''50000''),
                  (''maxFeePerGas'', ''1000000000''),
                  (''maxPriorityFeePerGas'', ''1000000000''),
                  (''initCode'', ''0x''),
                  (''paymasterAndData'', ''0x'')] \<rparr>"

definition sample_request :: sign_user_operation_parameters where
  "sample_request = \<lparr> sp_chainId = None, sp_userOperation = sample_user_operation \<rparr>"

text \<open>A typed-data request of a caller.\<close>

definition sample_typed_data :: typed_data where
  "sample_typed_data =
     \<lparr> td_domain = \<lparr> dom_chainId = Some 1, dom_name = Some ''Ether Mail'',
                     dom_verifyingContract = None, dom_version = Some ''1'' \<rparr>,
       td_types = [(''Mail'', [(''contents'', ''string'')])],
       td_message = [(''contents'', TdString ''Hello'')],
       td_primaryType = ''Mail'' \<rparr>"

text \<open>A signing request that carries a chain id of its own.\<close>

definition override_request :: sign_user_operation_parameters where
  "override_request = \<lparr> sp_chainId = Some 5, sp_userOperation = sample_user_operation \<rparr>"

text \<open>A second world, whose RPC would derive another sender address.\<close>

definition other_world :: world where
  "other_world =
     sample_world\<lparr>rpc_getSenderAddress := (\<lambda>t factory factoryData ep. Inr other_sender)\<rparr>"

text \<open>A client with no static chain, on a network whose \<^verbatim>\<open>eth_chainId\<close> is 0.\<close>

definition zero_chain_world :: world where
  "zero_chain_world = sample_world\<lparr>rpc_getChainId := (\<lambda>t. Inr 0)\<rparr>"

text \<open>A client with no static chain whose RPC cannot be reached.\<close>

definition offline_world :: world where
  "offline_world = sample_world\<lparr>rpc_getChainId := (\<lambda>t. Inl ''network error'')\<rparr>"

text \<open>A world in which the hashing of a user operation throws.\<close>

definition failing_hash_world :: world where
  "failing_hash_world =
     sample_world\<lparr>getUserOperationHash := (\<lambda>uo ep v c. Inl ''invalid user operation'')\<rparr>"

text \<open>
  An account whose version tag is none of the two supported ones. It can only be built with
  an explicit factory address: without one, the construction already fails in
  \<open>getDefaultAddresses\<close>.
\<close>

definition unsupported_parameters :: parameters where
  "unsupported_parameters =
     sample_parameters\<lparr>par_version := ''3.0.0'',
       par_factoryAddress := Some (Hex ''0000000000400CdFef5E2714E63d8040b700BC24'')\<rparr>"

definition unsupported_account :: light_account where
  "unsupported_account = sample_account\<lparr>la_version := ''3.0.0''\<rparr>"

subsection \<open>Notions of the specification\<close>

text \<open>The interactions a method call added to the trace.\<close>

definition events_since :: "account_state \<Rightarrow> account_state \<Rightarrow> event list" where
  "events_since st st' = drop (length (trace st)) (trace st')"

text \<open>
  Step 2 of the specification's signature composer, the version tag: the signature as it is,
  or behind the one-byte signer type, or the failure for an unknown version.
\<close>

definition spec_version_tag :: "string \<Rightarrow> hex \<Rightarrow> error + hex" where
  "spec_version_tag v signature =
     (if v = ''1.1.0'' then Inr signature
      else if v = ''2.0.0'' then Inr (concat_hex [SignatureType_EOA, signature])
      else Inl (Error ''Unknown Light Account version''))"

text \<open>
  The specification's signature composition over the hash of an input (or the failure of
  hashing it): resolve the chain id and the account address, have the owner sign the
  EIP-712 LightAccount wrapper of the hash (step 1), then tag by version (step 2).
\<close>

definition spec_compose_signature ::
  "light_account \<Rightarrow> world \<Rightarrow> string + hex \<Rightarrow> account_state \<Rightarrow> (error + hex) \<times> account_state" where
  "spec_compose_signature a w hashing st =
     (case getMemoizedChainId w st of
        (Inl e, st1) \<Rightarrow> (Inl e, st1)
      | (Inr chain, st1) \<Rightarrow>
          (case getAddress a w st1 of
             (Inl e, st2) \<Rightarrow> (Inl e, st2)
           | (Inr addr, st2) \<Rightarrow>
               (case hashing of
                  Inl m \<Rightarrow> (Inl (External m), st2)
                | Inr hashed \<Rightarrow>
                    (case signWith1271WrapperV1 w chain addr hashed st2 of
                       (Inl e, st3) \<Rightarrow> (Inl e, st3)
                     | (Inr signature, st3) \<Rightarrow>
                         (spec_version_tag (la_version a) signature, st3)))))"

text \<open>
  The canonical hash of the operation a request carries, for a given chain id: over the
  operation with its signature replaced by \<^verbatim>\<open>0x\<close>, for the account's entry point.
\<close>

definition canonical_operation_hash ::
  "light_account \<Rightarrow> world \<Rightarrow> sign_user_operation_parameters \<Rightarrow> int \<Rightarrow> string + hex" where
  "canonical_operation_hash a w params chain =
     getUserOperationHash w ((sp_userOperation params)\<lparr>uo_signature := Hex []\<rparr>)
       (ep_address (la_entryPoint a)) (ep_version (la_entryPoint a)) chain"

section \<open>Properties\<close>

subsection \<open>Evaluation on the concrete world\<close>

lemmas sample_defs =
  sample_world_def sample_account_def sample_account_v1_def sample_parameters_def
  sample_parameters_v1_def sample_request_def override_request_def sample_user_operation_def
  initial_state_def unsupported_account_def unsupported_parameters_def entryPoint_of_def
  optional_chain_def nullish_def

lemmas method_defs =
  getMemoizedChainId_def getAddress_def getFactoryArgs_def getAccountInitCode_def
  signWith1271WrapperV1_def truthy_number_def truthy_address_def hex_text_def
  createAccount_abi_def concat_hex_def SignatureType_EOA_def Let_def

lemma sample_getMemoizedChainId:
  "getMemoizedChainId sample_world initial_state =
     (Inr 1, \<lparr> accountAddress = None, chainId = Some 1, trace = [GetChainId (Inr 1)] \<rparr>)"
  by (simp add: sample_defs method_defs)

lemma sample_getAddress:
  "getAddress sample_account sample_world initial_state =
     (Inr sample_sender,
      \<lparr> accountAddress = Some sample_sender, chainId = None,
        trace = [GetSenderAddress (Hex ''0000000000400CdFef5E2714E63d8040b700BC24'')
                   (Hex ''5fbfb9cf'') entryPoint07Address (Inr sample_sender)] \<rparr>)"
  by (simp add: sample_defs method_defs)

lemma sample_getAddress_after_chain:
  "fst (getAddress sample_account sample_world
         \<lparr> accountAddress = None, chainId = Some 1, trace = [GetChainId (Inr 1)] \<rparr>)
     = Inr sample_sender
   \<and> fst (getAddress sample_account_v1 sample_world
         \<lparr> accountAddress = None, chainId = Some 1, trace = [GetChainId (Inr 1)] \<rparr>)
     = Inr sample_sender"
  by (simp add: sample_defs method_defs)

lemma sample_signUserOperation:
  "signUserOperation sample_account sample_world sample_request initial_state =
     (Inr (Hex ''00e191''),
      \<lparr> accountAddress = None, chainId = Some 1,
        trace = [GetChainId (Inr 1),
                 OwnerSignMessage (MessageRaw (Hex ''07c1'')) (Inr (Hex ''e191''))] \<rparr>)"
  by (simp add: signUserOperation_def sample_defs method_defs)

lemma sample_signUserOperation_unsupported:
  "signUserOperation unsupported_account sample_world sample_request initial_state =
     (Inl (Error ''Unknown Light Account version''),
      \<lparr> accountAddress = None, chainId = Some 1,
        trace = [GetChainId (Inr 1),
                 OwnerSignMessage (MessageRaw (Hex ''07c1'')) (Inr (Hex ''e191''))] \<rparr>)"
  by (simp add: signUserOperation_def sample_defs method_defs)

lemma sample_unsupported_constructed:
  "toLightSmartAccount unsupported_parameters = Inr (unsupported_account, initial_state)"
  by (simp add: toLightSmartAccount_def getDefaultAddresses_def sample_defs)

lemma sample_constructed:
  "toLightSmartAccount sample_parameters = Inr (sample_account, initial_state)"
  by (simp add: toLightSmartAccount_def getDefaultAddresses_def
        LIGHT_VERSION_TO_ADDRESSES_MAP_def sample_defs)

lemma sample_constructed_v1:
  "toLightSmartAccount sample_parameters_v1 = Inr (sample_account_v1, initial_state)"
  by (simp add: toLightSmartAccount_def getDefaultAddresses_def
        LIGHT_VERSION_TO_ADDRESSES_MAP_def sample_defs)

subsection \<open>The trace and the two caches\<close>

lemma truthy_address_Some: "truthy_address (Some h)"
  by (simp add: truthy_address_def hex_text_def)

lemma getMemoizedChainId_trace:
  "getMemoizedChainId w st = (r, st1) \<Longrightarrow>
     trace st1 = trace st \<or> (\<exists>x. trace st1 = trace st @ [GetChainId x])"
  by (auto simp: getMemoizedChainId_def Let_def split: option.splits sum.splits if_splits)

lemma getMemoizedChainId_error:
  "getMemoizedChainId w st = (Inl e, st1) \<Longrightarrow> \<exists>m. e = External m"
  by (auto simp: getMemoizedChainId_def Let_def split: option.splits sum.splits if_splits)

lemma getAddress_trace:
  "getAddress a w st = (r, st1) \<Longrightarrow>
     trace st1 = trace st \<or> (\<exists>f d e x. trace st1 = trace st @ [GetSenderAddress f d e x])"
  by (auto simp: getAddress_def Let_def split: option.splits sum.splits if_splits prod.splits)

lemma signWith1271WrapperV1_result:
  "signWith1271WrapperV1 w c ad h st = (r, st1) \<Longrightarrow>
     \<exists>td x. trace st1 = trace st @ [OwnerSignTypedData td x] \<and> r = external x"
  by (auto simp: signWith1271WrapperV1_def Let_def)

lemma signWith1271WrapperV1_answer:
  "owner_signTypedData w (length (trace st)) (LightAccountMessage_typed_data c ad h) = x \<Longrightarrow>
     signWith1271WrapperV1 w c ad h st =
       (external x, st\<lparr>trace := trace st @
                         [OwnerSignTypedData (LightAccountMessage_typed_data c ad h) x]\<rparr>)"
  by (auto simp: signWith1271WrapperV1_def Let_def)

lemma getAddress_cached:
  "accountAddress st = Some addr \<Longrightarrow> getAddress a w st = (Inr addr, st)"
  by (simp add: getAddress_def truthy_address_Some)

lemma getAddress_result:
  assumes "getAddress a w st = (Inr addr, st')"
  shows "accountAddress st' = Some addr"
    and "accountAddress st = Some addr \<and> st' = st
         \<or> accountAddress st = None \<and>
            (\<exists>factoryData. getFactoryArgs a w = Inr (la_factoryAddress a, factoryData) \<and>
              st' = st\<lparr>trace := trace st @
                        [GetSenderAddress (la_factoryAddress a) factoryData
                           (ep_address (la_entryPoint a)) (Inr addr)],
                      accountAddress := Some addr\<rparr>)"
  using assms
  by (auto simp: getAddress_def truthy_address_Some getFactoryArgs_def Let_def
           split: option.splits sum.splits if_splits prod.splits)

lemma getMemoizedChainId_accountAddress:
  "accountAddress (snd (getMemoizedChainId w st)) = accountAddress st"
  by (simp add: getMemoizedChainId_def Let_def split: option.splits sum.splits)

lemma signMessage_keeps:
  "accountAddress st = Some addr \<Longrightarrow> accountAddress (snd (signMessage a w m st)) = Some addr"
  using getMemoizedChainId_accountAddress [of w st]
  by (auto simp: signMessage_def getAddress_cached signWith1271WrapperV1_def Let_def
           split: prod.splits sum.splits)

lemma signTypedData_keeps:
  "accountAddress st = Some addr \<Longrightarrow> accountAddress (snd (signTypedData a w td st)) = Some addr"
  using getMemoizedChainId_accountAddress [of w st]
  by (auto simp: signTypedData_def getAddress_cached signWith1271WrapperV1_def Let_def
           split: prod.splits sum.splits)

lemma signUserOperation_accountAddress:
  "accountAddress (snd (signUserOperation a w prm st)) = accountAddress st"
  using getMemoizedChainId_accountAddress [of w st]
  by (auto simp: signUserOperation_def Let_def split: prod.splits sum.splits option.splits)

text \<open>
  The chain id cache works for every chain id but zero, and a client whose chain is known
  statically never fetches.
\<close>

lemma getMemoizedChainId_cached:
  "chainId st = Some c \<Longrightarrow> c \<noteq> 0 \<Longrightarrow> getMemoizedChainId w st = (Inr c, st)"
  by (simp add: getMemoizedChainId_def truthy_number_def)

lemma getMemoizedChainId_fetch_once:
  "getMemoizedChainId w st = (Inr c, st') \<Longrightarrow> c \<noteq> 0 \<Longrightarrow>
     getMemoizedChainId w' st' = (Inr c, st')"
  by (auto simp: getMemoizedChainId_def truthy_number_def Let_def
           split: option.splits sum.splits if_splits)

lemma getMemoizedChainId_static:
  "client_chain w = Some c \<Longrightarrow> trace (snd (getMemoizedChainId w st)) = trace st"
  by (auto simp: getMemoizedChainId_def split: option.splits)

text \<open>
  Without an explicit factory address, an account with an unsupported version tag is not
  even constructed.
\<close>

lemma toLightSmartAccount_unsupported_without_factory:
  "par_version p \<noteq> ''1.1.0'' \<Longrightarrow> par_version p \<noteq> ''2.0.0'' \<Longrightarrow> par_factoryAddress p = None \<Longrightarrow>
     toLightSmartAccount p =
       Inl (TypeError ''Cannot read properties of undefined (reading 'factoryAddress')'')"
  by (simp add: toLightSmartAccount_def getDefaultAddresses_def LIGHT_VERSION_TO_ADDRESSES_MAP_def)

subsection \<open>The signing methods and the specification's composition\<close>

lemma signMessage_composition:
  "signMessage a w m st = spec_compose_signature a w (hashMessage w m) st"
  by (simp add: signMessage_def spec_compose_signature_def spec_version_tag_def
           split: prod.splits sum.splits)

lemma signTypedData_composition:
  "signTypedData a w td st = spec_compose_signature a w (hashTypedData w td) st"
  by (simp add: signTypedData_def spec_compose_signature_def spec_version_tag_def
           split: prod.splits sum.splits)

lemma signUserOperation_unfold:
  "signUserOperation a w prm st =
     (case (case sp_chainId prm of Some c \<Rightarrow> (Inr c, st) | None \<Rightarrow> getMemoizedChainId w st) of
        (Inl e, st1) \<Rightarrow> (Inl e, st1)
      | (Inr c, st1) \<Rightarrow>
          (case canonical_operation_hash a w prm c of
             Inl m \<Rightarrow> (Inl (External m), st1)
           | Inr h \<Rightarrow>
               ((case owner_signMessage w (length (trace st1)) (MessageRaw h) of
                   Inl m \<Rightarrow> Inl (External m)
                 | Inr sig \<Rightarrow> spec_version_tag (la_version a) sig),
                st1\<lparr>trace := trace st1 @
                       [OwnerSignMessage (MessageRaw h)
                          (owner_signMessage w (length (trace st1)) (MessageRaw h))]\<rparr>)))"
  by (simp add: signUserOperation_def canonical_operation_hash_def spec_version_tag_def Let_def
           split: prod.splits sum.splits option.splits)

text \<open>
  When everything before the owner's signature succeeds and the owner signs, the result is
  that signature under the version tag, and the trace has grown by that one request.
\<close>

lemma compose_reached:
  assumes "getMemoizedChainId w st = (Inr c, stA)"
    and "getAddress a w stA = (Inr addr, stB)"
    and "owner_signTypedData w (length (trace stB)) (LightAccountMessage_typed_data c addr h)
           = Inr sig"
  shows "spec_compose_signature a w (Inr h) st =
           (spec_version_tag (la_version a) sig,
            stB\<lparr>trace := trace stB @
                   [OwnerSignTypedData (LightAccountMessage_typed_data c addr h) (Inr sig)]\<rparr>)"
  using assms
  by (simp add: spec_compose_signature_def signWith1271WrapperV1_answer split: sum.splits)

lemma signUserOperation_reached:
  assumes "(case sp_chainId prm of Some k \<Rightarrow> (Inr k, st) | None \<Rightarrow> getMemoizedChainId w st)
             = (Inr c, stA)"
    and "getUserOperationHash w ((sp_userOperation prm)\<lparr>uo_signature := Hex []\<rparr>)
           (ep_address (la_entryPoint a)) (ep_version (la_entryPoint a)) c = Inr h"
    and "owner_signMessage w (length (trace stA)) (MessageRaw h) = Inr sig"
  shows "signUserOperation a w prm st =
           (spec_version_tag (la_version a) sig,
            stA\<lparr>trace := trace stA @ [OwnerSignMessage (MessageRaw h) (Inr sig)]\<rparr>)"
  using assms
  by (simp add: signUserOperation_unfold canonical_operation_hash_def)

text \<open>
  When the last interaction a call added is a successful signature of the owner, the call's
  result is that signature under the version tag.
\<close>

lemma compose_tagged:
  assumes "events_since st (snd (spec_compose_signature a w hashing st)) \<noteq> []"
    and "last (events_since st (snd (spec_compose_signature a w hashing st)))
           = OwnerSignTypedData td (Inr sig)"
  shows "fst (spec_compose_signature a w hashing st) = spec_version_tag (la_version a) sig"
proof -
  obtain r1 st1 where c1: "getMemoizedChainId w st = (r1, st1)"
    by (cases "getMemoizedChainId w st")
  obtain r2 st2 where c2: "getAddress a w st1 = (r2, st2)"
    by (cases "getAddress a w st1")
  note t1 = getMemoizedChainId_trace [OF c1]
  note t2 = getAddress_trace [OF c2]
  show ?thesis
  proof (cases r1)
    case (Inl e)
    with c1 t1 assms show ?thesis
      by (auto simp: spec_compose_signature_def events_since_def)
  next
    case chain: (Inr chain)
    show ?thesis
    proof (cases r2)
      case (Inl e)
      with c1 c2 chain t1 t2 assms show ?thesis
        by (auto simp: spec_compose_signature_def events_since_def)
    next
      case addr: (Inr addr)
      show ?thesis
      proof (cases hashing)
        case (Inl m)
        with c1 c2 chain addr t1 t2 assms show ?thesis
          by (auto simp: spec_compose_signature_def events_since_def)
      next
        case hashed: (Inr h)
        obtain r3 st3 where c3: "signWith1271WrapperV1 w chain addr h st2 = (r3, st3)"
          by (cases "signWith1271WrapperV1 w chain addr h st2")
        from signWith1271WrapperV1_result [OF c3] obtain td' x where
          t3: "trace st3 = trace st2 @ [OwnerSignTypedData td' x]" and r3: "r3 = external x"
          by blast
        from t1 t2 t3
        have "events_since st st3 \<noteq> [] \<and> last (events_since st st3) = OwnerSignTypedData td' x"
          by (auto simp: events_since_def)
        moreover have "snd (spec_compose_signature a w hashing st) = st3"
          using c1 c2 c3 chain addr hashed
          by (auto simp: spec_compose_signature_def split: sum.splits)
        ultimately have "x = Inr sig" using assms by simp
        with r3 c1 c2 c3 chain addr hashed show ?thesis
          by (simp add: spec_compose_signature_def)
      qed
    qed
  qed
qed

lemma signUserOperation_tagged:
  assumes "events_since st (snd (signUserOperation a w prm st)) \<noteq> []"
    and "last (events_since st (snd (signUserOperation a w prm st)))
           = OwnerSignMessage msg (Inr sig)"
  shows "fst (signUserOperation a w prm st) = spec_version_tag (la_version a) sig"
proof -
  obtain r1 st1 where c1:
    "(case sp_chainId prm of Some c \<Rightarrow> (Inr c, st) | None \<Rightarrow> getMemoizedChainId w st) = (r1, st1)"
    by (cases "(case sp_chainId prm of Some c \<Rightarrow> (Inr c, st) | None \<Rightarrow> getMemoizedChainId w st)")
  then have t1: "trace st1 = trace st \<or> (\<exists>x. trace st1 = trace st @ [GetChainId x])"
    by (auto split: option.splits dest: getMemoizedChainId_trace)
  show ?thesis
  proof (cases r1)
    case (Inl e)
    with c1 t1 assms show ?thesis
      by (auto simp: signUserOperation_unfold events_since_def)
  next
    case (Inr c)
    with c1 t1 assms show ?thesis
      by (auto simp: signUserOperation_unfold events_since_def split: sum.splits)
  qed
qed

lemma size_hex_tagged: "size_hex (concat_hex [SignatureType_EOA, sig]) = size_hex sig + 1"
  by (cases sig) (simp add: size_hex_def concat_hex_def SignatureType_EOA_def hex_text_def)

lemma spec_version_tag_supported:
  "la_version a = ''1.1.0'' \<Longrightarrow> spec_version_tag (la_version a) sig = Inr sig"
  "la_version a = ''2.0.0'' \<Longrightarrow>
     spec_version_tag (la_version a) sig = Inr (Hex (''00'' @ digits sig))"
  by (simp_all add: spec_version_tag_def concat_hex_def SignatureType_EOA_def)

subsection \<open>The claims\<close>

text \<open>
  Claim C10. In the construction of \<^verbatim>\<open>entryPoint\<close>, a supplied
  \<^verbatim>\<open>parameters.entryPoint.abi\<close> is never used: whenever one is supplied the resulting
  ABI is \<open>entryPoint06Abi\<close>, whatever the supplied ABI and whatever the version. When none is
  supplied, the resulting ABI is \<open>entryPoint06Abi\<close> exactly when the version (defaulting to
  0.7) is 0.6, and \<open>entryPoint07Abi\<close> otherwise.
\<close>

theorem entryPoint_abi_precedence:
  "ep_abi (entryPoint_of (p\<lparr>par_entryPoint :=
       Some \<lparr> epp_address = ad, epp_abi = Some supplied, epp_version = v \<rparr>\<rparr>)) = entryPoint06Abi
   \<and> ep_abi (entryPoint_of (p\<lparr>par_entryPoint :=
       Some \<lparr> epp_address = ad, epp_abi = None, epp_version = v \<rparr>\<rparr>))
       = (if nullish v ''0.7'' = ''0.6'' then entryPoint06Abi else entryPoint07Abi)
   \<and> ep_abi (entryPoint_of (p\<lparr>par_entryPoint := None\<rparr>)) = entryPoint07Abi"
  by (simp add: entryPoint_of_def optional_chain_def nullish_def)

theorem entryPoint_abi_precedence_witness:
  "ep_abi (entryPoint_of (sample_parameters\<lparr>par_entryPoint :=
       Some \<lparr> epp_address = None, epp_abi = Some entryPoint07Abi, epp_version = Some ''0.7'' \<rparr>\<rparr>))
     = entryPoint06Abi
   \<and> ep_abi (entryPoint_of (sample_parameters\<lparr>par_entryPoint :=
       Some \<lparr> epp_address = None, epp_abi = None, epp_version = Some ''0.6'' \<rparr>\<rparr>)) = entryPoint06Abi"
  using entryPoint_abi_precedence
    [where p = sample_parameters and ad = None and supplied = entryPoint07Abi
       and v = "Some ''0.7''"]
    entryPoint_abi_precedence
    [where p = sample_parameters and ad = None and supplied = entryPoint07Abi
       and v = "Some ''0.6''"]
  by (simp add: nullish_def)

text \<open>
  Claim C8. \<^verbatim>\<open>getStubSignature\<close> reads neither the key nor the network (it takes no
  world) and depends on nothing but the account's version: it leaves the state as it is,
  returns the same bytes from any state and when called again. For version 1.1.0 the result
  is the 65-byte placeholder; for version 2.0.0 it is the same placeholder behind the byte
  \<^verbatim>\<open>00\<close>, 66 bytes.
\<close>

theorem getStubSignature_shape:
  "getStubSignature (a\<lparr>la_version := ''1.1.0''\<rparr>) st = (Inr stub_signature, st)
   \<and> size_hex stub_signature = 65
   \<and> getStubSignature (a\<lparr>la_version := ''2.0.0''\<rparr>) st
       = (Inr (Hex (''00'' @ digits stub_signature)), st)
   \<and> size_hex (Hex (''00'' @ digits stub_signature)) = 66
   \<and> fst (getStubSignature a st) = fst (getStubSignature a st')
   \<and> getStubSignature a (snd (getStubSignature a st)) = getStubSignature a st"
  by (simp add: getStubSignature_def stub_signature_def size_hex_def hex_text_def
        concat_hex_def SignatureType_EOA_def Let_def)

text \<open>
  Claim C5. A list of exactly one call is encoded with the \<^verbatim>\<open>execute\<close> function, on
  the target, the value (zero when absent) and the data (empty when absent). A list of two
  or more calls is encoded with \<^verbatim>\<open>executeBatch\<close>, on three arrays, the targets, the
  values and the data of the calls in the order of the input, with the same defaults.
\<close>

theorem encodeCalls_single_and_batch:
  "encodeCalls w [c] st =
     (external (encodeFunctionData w execute_abi ''execute''
        [AbiAddress (call_to c),
         AbiUint (case call_value c of None \<Rightarrow> 0 | Some v \<Rightarrow> v),
         AbiBytes (case call_data c of None \<Rightarrow> Hex [] | Some d \<Rightarrow> d)]), st)
   \<and> encodeCalls w (c1 # c2 # cs) st =
     (external (encodeFunctionData w executeBatch_abi ''executeBatch''
        [AbiArray (map (\<lambda>x. AbiAddress (call_to x)) (c1 # c2 # cs)),
         AbiArray (map (\<lambda>x. AbiUint (case call_value x of None \<Rightarrow> 0 | Some v \<Rightarrow> v))
                     (c1 # c2 # cs)),
         AbiArray (map (\<lambda>x. AbiBytes (case call_data x of None \<Rightarrow> Hex [] | Some d \<Rightarrow> d))
                     (c1 # c2 # cs))]), st)
   \<and> fn_name execute_abi = ''execute'' \<and> fn_name executeBatch_abi = ''executeBatch''"
  by (simp add: encodeCalls_def nullish_def execute_abi_def executeBatch_abi_def)

text \<open>
  Claim C3, as amended. For the empty call list \<^verbatim>\<open>encodeCalls\<close> returns no encoding and
  touches neither the network nor the state, whatever the encoder would do: it fails with the
  TypeError that reading \<^verbatim>\<open>calls[0].to\<close> raises. There is no dedicated error for it.
\<close>

theorem encodeCalls_empty:
  "encodeCalls w [] st =
     (Inl (TypeError ''Cannot read properties of undefined (reading 'to')''), st)"
  by (simp add: encodeCalls_def)

text \<open>
  Claim C3 as stated fails: on the empty list the error is not an error thrown by the file
  with the message of the claim, it is the runtime's TypeError.
\<close>

theorem encodeCalls_empty_not_InvalidInput:
  "encodeCalls sample_world [] initial_state =
     (Inl (TypeError ''Cannot read properties of undefined (reading 'to')''), initial_state)
   \<and> fst (encodeCalls sample_world [] initial_state) \<noteq> Inl (Error ''no calls to encode'')"
  by (simp add: encodeCalls_def)

text \<open>
  Claim C6. \<^verbatim>\<open>getAddress\<close> is memoised. An address given at construction is returned
  as it is and nothing is asked of the network. Otherwise a call that returns an address has
  obtained it by one sender-address simulation and has stored it; from then on every call
  returns the stored address and leaves the state, hence the trace, unchanged, whatever the
  network would answer now. The other methods keep a stored address.
\<close>

theorem getAddress_memoized:
  "(toLightSmartAccount p = Inr (a, st0) \<and> par_address p = Some addr
      \<longrightarrow> getAddress a w st0 = (Inr addr, st0) \<and> trace st0 = [])
   \<and> (getAddress a w st = (Inr addr, st') \<longrightarrow>
        getAddress a w' st' = (Inr addr, st')
        \<and> accountAddress st' = Some addr
        \<and> (accountAddress st = None \<longrightarrow>
             (\<exists>factoryData. trace st' = trace st @
                [GetSenderAddress (la_factoryAddress a) factoryData
                   (ep_address (la_entryPoint a)) (Inr addr)]))
        \<and> (accountAddress st \<noteq> None \<longrightarrow> st' = st))
   \<and> (accountAddress st = Some addr \<longrightarrow>
        accountAddress (snd (getMemoizedChainId w st)) = Some addr
        \<and> accountAddress (snd (signMessage a w m st)) = Some addr
        \<and> accountAddress (snd (signTypedData a w td st)) = Some addr
        \<and> accountAddress (snd (signUserOperation a w prm st)) = Some addr)"
proof (intro conjI impI)
  assume h: "toLightSmartAccount p = Inr (a, st0) \<and> par_address p = Some addr"
  then have "accountAddress st0 = Some addr" and t: "trace st0 = []"
    by (auto simp: toLightSmartAccount_def split: sum.splits)
  then show "getAddress a w st0 = (Inr addr, st0)"
    by (simp add: getAddress_cached)
  show "trace st0 = []" by (rule t)
next
  assume h: "getAddress a w st = (Inr addr, st')"
  show "accountAddress st' = Some addr" by (rule getAddress_result(1) [OF h])
  then show "getAddress a w' st' = (Inr addr, st')" by (rule getAddress_cached)
  {
    assume "accountAddress st = None"
    with getAddress_result(2) [OF h]
    show "\<exists>factoryData. trace st' = trace st @
            [GetSenderAddress (la_factoryAddress a) factoryData
               (ep_address (la_entryPoint a)) (Inr addr)]"
      by auto
  }
  {
    assume "accountAddress st \<noteq> None"
    with getAddress_result(2) [OF h] show "st' = st" by auto
  }
next
  assume h: "accountAddress st = Some addr"
  show "accountAddress (snd (getMemoizedChainId w st)) = Some addr"
    by (simp add: getMemoizedChainId_accountAddress h)
  show "accountAddress (snd (signMessage a w m st)) = Some addr"
    by (rule signMessage_keeps [OF h])
  show "accountAddress (snd (signTypedData a w td st)) = Some addr"
    by (rule signTypedData_keeps [OF h])
  show "accountAddress (snd (signUserOperation a w prm st)) = Some addr"
    by (simp add: signUserOperation_accountAddress h)
qed

text \<open>
  On the concrete world: the first call derives the address; the second call, made in a
  world that would derive another address, returns the stored one and adds nothing to the
  trace.
\<close>

theorem getAddress_memoized_witness:
  "getAddress sample_account sample_world initial_state =
     (Inr sample_sender,
      \<lparr> accountAddress = Some sample_sender, chainId = None,
        trace = [GetSenderAddress (Hex ''0000000000400CdFef5E2714E63d8040b700BC24'')
                   (Hex ''5fbfb9cf'') entryPoint07Address (Inr sample_sender)] \<rparr>)
   \<and> getAddress sample_account other_world
        \<lparr> accountAddress = Some sample_sender, chainId = None,
          trace = [GetSenderAddress (Hex ''0000000000400CdFef5E2714E63d8040b700BC24'')
                     (Hex ''5fbfb9cf'') entryPoint07Address (Inr sample_sender)] \<rparr>
       = (Inr sample_sender,
          \<lparr> accountAddress = Some sample_sender, chainId = None,
            trace = [GetSenderAddress (Hex ''0000000000400CdFef5E2714E63d8040b700BC24'')
                       (Hex ''5fbfb9cf'') entryPoint07Address (Inr sample_sender)] \<rparr>)
   \<and> fst (getAddress sample_account other_world initial_state) = Inr other_sender
   \<and> other_sender \<noteq> sample_sender"
proof -
  have other: "fst (getAddress sample_account other_world initial_state) = Inr other_sender"
    by (simp add: other_world_def sample_defs method_defs)
  have ne: "other_sender \<noteq> sample_sender"
    by (simp add: other_sender_def sample_sender_def)
  from getAddress_memoized [where a = sample_account and w = sample_world
      and st = initial_state and w' = other_world, THEN conjunct2, THEN conjunct1, rule_format,
      OF sample_getAddress]
  show ?thesis using sample_getAddress other ne by simp
qed

text \<open>
  Claim C9, at the input where the code departs from it. The test \<^verbatim>\<open>if (chainId)\<close>
  takes a cached chain id of zero for no cached chain id: with a client that has no static
  chain, on a network whose chain id is 0, the second call fetches again.
\<close>

theorem getMemoizedChainId_zero_refetched:
  "getMemoizedChainId zero_chain_world initial_state =
     (Inr 0, \<lparr> accountAddress = None, chainId = Some 0, trace = [GetChainId (Inr 0)] \<rparr>)
   \<and> getMemoizedChainId zero_chain_world
        \<lparr> accountAddress = None, chainId = Some 0, trace = [GetChainId (Inr 0)] \<rparr> =
     (Inr 0, \<lparr> accountAddress = None, chainId = Some 0,
               trace = [GetChainId (Inr 0), GetChainId (Inr 0)] \<rparr>)"
  by (simp add: getMemoizedChainId_def zero_chain_world_def sample_world_def initial_state_def
        truthy_number_def Let_def)

text \<open>
  Claim C7. In \<^verbatim>\<open>signMessage\<close>, \<^verbatim>\<open>signTypedData\<close> and \<^verbatim>\<open>signUserOperation\<close>,
  every raw signature the owner produces is returned unmodified when the account's version
  is 1.1.0, and behind the byte \<^verbatim>\<open>00\<close> of the EOA signer type, one byte longer, when the
  version is 2.0.0. This is stated twice. From the trace: when the last interaction of a call
  is a successful signing, the result is that signature, tagged. From the collaborators'
  answers: when the chain id and the address resolve, the hashing succeeds and the owner
  answers the request with a signature, each method returns exactly that signature, tagged,
  and has asked the owner exactly that request.
\<close>

theorem version_tagging:
  "(events_since st (snd (signMessage a w m st)) \<noteq> [] \<and>
      last (events_since st (snd (signMessage a w m st))) = OwnerSignTypedData td1 (Inr sig)
      \<longrightarrow> (la_version a = ''1.1.0'' \<longrightarrow> fst (signMessage a w m st) = Inr sig)
        \<and> (la_version a = ''2.0.0'' \<longrightarrow>
              fst (signMessage a w m st) = Inr (Hex (''00'' @ digits sig))))
   \<and> (events_since st (snd (signTypedData a w td st)) \<noteq> [] \<and>
      last (events_since st (snd (signTypedData a w td st))) = OwnerSignTypedData td1 (Inr sig)
      \<longrightarrow> (la_version a = ''1.1.0'' \<longrightarrow> fst (signTypedData a w td st) = Inr sig)
        \<and> (la_version a = ''2.0.0'' \<longrightarrow>
              fst (signTypedData a w td st) = Inr (Hex (''00'' @ digits sig))))
   \<and> (events_since st (snd (signUserOperation a w prm st)) \<noteq> [] \<and>
      last (events_since st (snd (signUserOperation a w prm st))) = OwnerSignMessage msg (Inr sig)
      \<longrightarrow> (la_version a = ''1.1.0'' \<longrightarrow> fst (signUserOperation a w prm st) = Inr sig)
        \<and> (la_version a = ''2.0.0'' \<longrightarrow>
              fst (signUserOperation a w prm st) = Inr (Hex (''00'' @ digits sig))))
   \<and> size_hex (Hex (''00'' @ digits sig)) = size_hex sig + 1
   \<and> (getMemoizedChainId w st = (Inr c, stA) \<and> getAddress a w stA = (Inr addr, stB)
      \<and> hashMessage w m = Inr h
      \<and> owner_signTypedData w (length (trace stB)) (LightAccountMessage_typed_data c addr h)
          = Inr sig
      \<longrightarrow> (la_version a = ''1.1.0'' \<longrightarrow>
             signMessage a w m st =
               (Inr sig,
                stB\<lparr>trace := trace stB @
                  [OwnerSignTypedData (LightAccountMessage_typed_data c addr h) (Inr sig)]\<rparr>))
        \<and> (la_version a = ''2.0.0'' \<longrightarrow>
             signMessage a w m st =
               (Inr (Hex (''00'' @ digits sig)),
                stB\<lparr>trace := trace stB @
                  [OwnerSignTypedData (LightAccountMessage_typed_data c addr h) (Inr sig)]\<rparr>)))
   \<and> (getMemoizedChainId w st = (Inr c, stA) \<and> getAddress a w stA = (Inr addr, stB)
      \<and> hashTypedData w td = Inr h
      \<and> owner_signTypedData w (length (trace stB)) (LightAccountMessage_typed_data c addr h)
          = Inr sig
      \<longrightarrow> (la_version a = ''1.1.0'' \<longrightarrow>
             signTypedData a w td st =
               (Inr sig,
                stB\<lparr>trace := trace stB @
                  [OwnerSignTypedData (LightAccountMessage_typed_data c addr h) (Inr sig)]\<rparr>))
        \<and> (la_version a = ''2.0.0'' \<longrightarrow>
             signTypedData a w td st =
               (Inr (Hex (''00'' @ digits sig)),
                stB\<lparr>trace := trace stB @
                  [OwnerSignTypedData (LightAccountMessage_typed_data c addr h) (Inr sig)]\<rparr>)))
   \<and> ((case sp_chainId prm of Some k \<Rightarrow> (Inr k, st) | None \<Rightarrow> getMemoizedChainId w st)
        = (Inr c, stA)
      \<and> getUserOperationHash w ((sp_userOperation prm)\<lparr>uo_signature := Hex []\<rparr>)
          (ep_address (la_entryPoint a)) (ep_version (la_entryPoint a)) c = Inr h
      \<and> owner_signMessage w (length (trace stA)) (MessageRaw h) = Inr sig
      \<longrightarrow> (la_version a = ''1.1.0'' \<longrightarrow>
             signUserOperation a w prm st =
               (Inr sig, stA\<lparr>trace := trace stA @ [OwnerSignMessage (MessageRaw h) (Inr sig)]\<rparr>))
        \<and> (la_version a = ''2.0.0'' \<longrightarrow>
             signUserOperation a w prm st =
               (Inr (Hex (''00'' @ digits sig)),
                stA\<lparr>trace := trace stA @ [OwnerSignMessage (MessageRaw h) (Inr sig)]\<rparr>)))"
proof -
  note tag = spec_version_tag_supported [of a sig]
  have sz: "size_hex (Hex (''00'' @ digits sig)) = size_hex sig + 1"
    using size_hex_tagged [of sig] by (simp add: concat_hex_def SignatureType_EOA_def)
  have old: "(events_since st (snd (signMessage a w m st)) \<noteq> [] \<and>
      last (events_since st (snd (signMessage a w m st))) = OwnerSignTypedData td1 (Inr sig)
      \<longrightarrow> (la_version a = ''1.1.0'' \<longrightarrow> fst (signMessage a w m st) = Inr sig)
        \<and> (la_version a = ''2.0.0'' \<longrightarrow>
              fst (signMessage a w m st) = Inr (Hex (''00'' @ digits sig))))
   \<and> (events_since st (snd (signTypedData a w td st)) \<noteq> [] \<and>
      last (events_since st (snd (signTypedData a w td st))) = OwnerSignTypedData td1 (Inr sig)
      \<longrightarrow> (la_version a = ''1.1.0'' \<longrightarrow> fst (signTypedData a w td st) = Inr sig)
        \<and> (la_version a = ''2.0.0'' \<longrightarrow>
              fst (signTypedData a w td st) = Inr (Hex (''00'' @ digits sig))))
   \<and> (events_since st (snd (signUserOperation a w prm st)) \<noteq> [] \<and>
      last (events_since st (snd (signUserOperation a w prm st))) = OwnerSignMessage msg (Inr sig)
      \<longrightarrow> (la_version a = ''1.1.0'' \<longrightarrow> fst (signUserOperation a w prm st) = Inr sig)
        \<and> (la_version a = ''2.0.0'' \<longrightarrow>
              fst (signUserOperation a w prm st) = Inr (Hex (''00'' @ digits sig))))"
    using tag compose_tagged [of st a w "hashMessage w m" td1 sig]
      compose_tagged [of st a w "hashTypedData w td" td1 sig]
      signUserOperation_tagged [of st a w prm msg sig]
    by (simp add: signMessage_composition signTypedData_composition)
  have new1: "getMemoizedChainId w st = (Inr c, stA) \<and> getAddress a w stA = (Inr addr, stB)
      \<and> hashMessage w m = Inr h
      \<and> owner_signTypedData w (length (trace stB)) (LightAccountMessage_typed_data c addr h)
          = Inr sig
      \<longrightarrow> signMessage a w m st =
            (spec_version_tag (la_version a) sig,
             stB\<lparr>trace := trace stB @
               [OwnerSignTypedData (LightAccountMessage_typed_data c addr h) (Inr sig)]\<rparr>)"
    by (auto simp: signMessage_composition intro: compose_reached)
  have new2: "getMemoizedChainId w st = (Inr c, stA) \<and> getAddress a w stA = (Inr addr, stB)
      \<and> hashTypedData w td = Inr h
      \<and> owner_signTypedData w (length (trace stB)) (LightAccountMessage_typed_data c addr h)
          = Inr sig
      \<longrightarrow> signTypedData a w td st =
            (spec_version_tag (la_version a) sig,
             stB\<lparr>trace := trace stB @
               [OwnerSignTypedData (LightAccountMessage_typed_data c addr h) (Inr sig)]\<rparr>)"
    by (auto simp: signTypedData_composition intro: compose_reached)
  have new3: "(case sp_chainId prm of Some k \<Rightarrow> (Inr k, st) | None \<Rightarrow> getMemoizedChainId w st)
        = (Inr c, stA)
      \<and> getUserOperationHash w ((sp_userOperation prm)\<lparr>uo_signature := Hex []\<rparr>)
          (ep_address (la_entryPoint a)) (ep_version (la_entryPoint a)) c = Inr h
      \<and> owner_signMessage w (length (trace stA)) (MessageRaw h) = Inr sig
      \<longrightarrow> signUserOperation a w prm st =
            (spec_version_tag (la_version a) sig,
             stA\<lparr>trace := trace stA @ [OwnerSignMessage (MessageRaw h) (Inr sig)]\<rparr>)"
    by (intro impI, elim conjE, rule signUserOperation_reached)
  from new1 tag have n1: "getMemoizedChainId w st = (Inr c, stA) \<and> getAddress a w stA = (Inr addr, stB)
      \<and> hashMessage w m = Inr h
      \<and> owner_signTypedData w (length (trace stB)) (LightAccountMessage_typed_data c addr h)
          = Inr sig
      \<longrightarrow> (la_version a = ''1.1.0'' \<longrightarrow>
             signMessage a w m st =
               (Inr sig,
                stB\<lparr>trace := trace stB @
                  [OwnerSignTypedData (LightAccountMessage_typed_data c addr h) (Inr sig)]\<rparr>))
        \<and> (la_version a = ''2.0.0'' \<longrightarrow>
             signMessage a w m st =
               (Inr (Hex (''00'' @ digits sig)),
                stB\<lparr>trace := trace stB @
                  [OwnerSignTypedData (LightAccountMessage_typed_data c addr h) (Inr sig)]\<rparr>))"
    by simp
  from new2 tag have n2: "getMemoizedChainId w st = (Inr c, stA) \<and> getAddress a w stA = (Inr addr, stB)
      \<and> hashTypedData w td = Inr h
      \<and> owner_signTypedData w (length (trace stB)) (LightAccountMessage_typed_data c addr h)
          = Inr sig
      \<longrightarrow> (la_version a = ''1.1.0'' \<longrightarrow>
             signTypedData a w td st =
               (Inr sig,
                stB\<lparr>trace := trace stB @
                  [OwnerSignTypedData (LightAccountMessage_typed_data c addr h) (Inr sig)]\<rparr>))
        \<and> (la_version a = ''2.0.0'' \<longrightarrow>
             signTypedData a w td st =
               (Inr (Hex (''00'' @ digits sig)),
                stB\<lparr>trace := trace stB @
                  [OwnerSignTypedData (LightAccountMessage_typed_data c addr h) (Inr sig)]\<rparr>))"
    by simp
  from new3 tag have n3: "(case sp_chainId prm of Some k \<Rightarrow> (Inr k, st) | None \<Rightarrow> getMemoizedChainId w st)
        = (Inr c, stA)
      \<and> getUserOperationHash w ((sp_userOperation prm)\<lparr>uo_signature := Hex []\<rparr>)
          (ep_address (la_entryPoint a)) (ep_version (la_entryPoint a)) c = Inr h
      \<and> owner_signMessage w (length (trace stA)) (MessageRaw h) = Inr sig
      \<longrightarrow> (la_version a = ''1.1.0'' \<longrightarrow>
             signUserOperation a w prm st =
               (Inr sig, stA\<lparr>trace := trace stA @ [OwnerSignMessage (MessageRaw h) (Inr sig)]\<rparr>))
        \<and> (la_version a = ''2.0.0'' \<longrightarrow>
             signUserOperation a w prm st =
               (Inr (Hex (''00'' @ digits sig)),
                stA\<lparr>trace := trace stA @ [OwnerSignMessage (MessageRaw h) (Inr sig)]\<rparr>))"
    by simp
  from old sz n1 n2 n3 show ?thesis by (intro conjI) blast+
qed

text \<open>
  On the concrete world, for the three methods and the two versions.
\<close>

theorem version_tagging_witness:
  "fst (signMessage sample_account sample_world (MessageString ''hello'') initial_state)
     = Inr (Hex ''001271'')
   \<and> fst (signMessage sample_account_v1 sample_world (MessageString ''hello'') initial_state)
     = Inr (Hex ''1271'')
   \<and> fst (signTypedData sample_account sample_world sample_typed_data initial_state)
     = Inr (Hex ''001271'')
   \<and> last (trace (snd (signTypedData sample_account sample_world sample_typed_data
                         initial_state)))
     = OwnerSignTypedData (LightAccountMessage_typed_data 1 sample_sender (Hex ''bb''))
         (Inr (Hex ''1271''))
   \<and> fst (signTypedData sample_account_v1 sample_world sample_typed_data initial_state)
     = Inr (Hex ''1271'')
   \<and> fst (signUserOperation sample_account sample_world sample_request initial_state)
     = Inr (Hex ''00e191'')
   \<and> fst (signUserOperation sample_account_v1 sample_world sample_request initial_state)
     = Inr (Hex ''e191'')"
proof -
  let ?S = "\<lparr> accountAddress = None, chainId = Some 1, trace = [GetChainId (Inr 1)] \<rparr>"
  note c = sample_getMemoizedChainId
  obtain S2 where a2: "getAddress sample_account sample_world ?S = (Inr sample_sender, S2)"
    using sample_getAddress_after_chain
    by (cases "getAddress sample_account sample_world ?S") auto
  obtain S1 where a1: "getAddress sample_account_v1 sample_world ?S = (Inr sample_sender, S1)"
    using sample_getAddress_after_chain
    by (cases "getAddress sample_account_v1 sample_world ?S") auto
  have hm: "hashMessage sample_world (MessageString ''hello'') = Inr (Hex ''aa'')"
    and ht: "hashTypedData sample_world sample_typed_data = Inr (Hex ''bb'')"
    and so: "owner_signTypedData sample_world n td = Inr (Hex ''1271'')"
    and sm: "owner_signMessage sample_world n msg = Inr (Hex ''e191'')" for n td msg
    by (simp_all add: sample_world_def)
  have r: "(case sp_chainId sample_request of
              Some k \<Rightarrow> (Inr k, initial_state)
            | None \<Rightarrow> getMemoizedChainId sample_world initial_state) = (Inr 1, ?S)"
    by (simp add: sample_request_def c)
  have u2: "getUserOperationHash sample_world
              ((sp_userOperation sample_request)\<lparr>uo_signature := Hex []\<rparr>)
              (ep_address (la_entryPoint sample_account))
              (ep_version (la_entryPoint sample_account)) 1 = Inr (Hex ''07c1'')"
    and u1: "getUserOperationHash sample_world
              ((sp_userOperation sample_request)\<lparr>uo_signature := Hex []\<rparr>)
              (ep_address (la_entryPoint sample_account_v1))
              (ep_version (la_entryPoint sample_account_v1)) 1 = Inr (Hex ''06c1'')"
    by (simp_all add: sample_defs)
  have v2: "la_version sample_account = ''2.0.0''"
    and v1: "la_version sample_account_v1 = ''1.1.0''"
    by (simp_all add: sample_defs)
  have m2: "signMessage sample_account sample_world (MessageString ''hello'') initial_state =
              (Inr (Hex ''001271''),
               S2\<lparr>trace := trace S2 @
                 [OwnerSignTypedData (LightAccountMessage_typed_data 1 sample_sender (Hex ''aa''))
                    (Inr (Hex ''1271''))]\<rparr>)"
    using version_tagging [where a = sample_account and w = sample_world and st = initial_state
        and m = "MessageString ''hello''" and c = 1 and stA = ?S and stB = S2
        and addr = sample_sender and h = "Hex ''aa''" and sig = "Hex ''1271''"]
      c a2 hm so v2
    by simp
  have m1: "signMessage sample_account_v1 sample_world (MessageString ''hello'') initial_state =
              (Inr (Hex ''1271''),
               S1\<lparr>trace := trace S1 @
                 [OwnerSignTypedData (LightAccountMessage_typed_data 1 sample_sender (Hex ''aa''))
                    (Inr (Hex ''1271''))]\<rparr>)"
    using version_tagging [where a = sample_account_v1 and w = sample_world
        and st = initial_state
        and m = "MessageString ''hello''" and c = 1 and stA = ?S and stB = S1
        and addr = sample_sender and h = "Hex ''aa''" and sig = "Hex ''1271''"]
      c a1 hm so v1
    by simp
  have t2: "signTypedData sample_account sample_world sample_typed_data initial_state =
              (Inr (Hex ''001271''),
               S2\<lparr>trace := trace S2 @
                 [OwnerSignTypedData (LightAccountMessage_typed_data 1 sample_sender (Hex ''bb''))
                    (Inr (Hex ''1271''))]\<rparr>)"
    using version_tagging [where a = sample_account and w = sample_world and st = initial_state
        and td = sample_typed_data and c = 1 and stA = ?S and stB = S2
        and addr = sample_sender and h = "Hex ''bb''" and sig = "Hex ''1271''"]
      c a2 ht so v2
    by simp
  have t1: "signTypedData sample_account_v1 sample_world sample_typed_data initial_state =
              (Inr (Hex ''1271''),
               S1\<lparr>trace := trace S1 @
                 [OwnerSignTypedData (LightAccountMessage_typed_data 1 sample_sender (Hex ''bb''))
                    (Inr (Hex ''1271''))]\<rparr>)"
    using version_tagging [where a = sample_account_v1 and w = sample_world
        and st = initial_state
        and td = sample_typed_data and c = 1 and stA = ?S and stB = S1
        and addr = sample_sender and h = "Hex ''bb''" and sig = "Hex ''1271''"]
      c a1 ht so v1
    by simp
  have o2: "signUserOperation sample_account sample_world sample_request initial_state =
              (Inr (Hex ''00e191''),
               ?S\<lparr>trace := trace ?S @
                 [OwnerSignMessage (MessageRaw (Hex ''07c1'')) (Inr (Hex ''e191''))]\<rparr>)"
    using version_tagging [where a = sample_account and w = sample_world and st = initial_state
        and prm = sample_request and c = 1 and stA = ?S and h = "Hex ''07c1''"
        and sig = "Hex ''e191''"]
      r u2 sm v2
    by simp
  have o1: "signUserOperation sample_account_v1 sample_world sample_request initial_state =
              (Inr (Hex ''e191''),
               ?S\<lparr>trace := trace ?S @
                 [OwnerSignMessage (MessageRaw (Hex ''06c1'')) (Inr (Hex ''e191''))]\<rparr>)"
    using version_tagging [where a = sample_account_v1 and w = sample_world
        and st = initial_state
        and prm = sample_request and c = 1 and stA = ?S and h = "Hex ''06c1''"
        and sig = "Hex ''e191''"]
      r u1 sm v1
    by simp
  show ?thesis
    by (simp add: m2 m1 t2 t1 o2 o1)
qed

text \<open>
  Claim C1, as amended. \<^verbatim>\<open>signMessage\<close> and \<^verbatim>\<open>signTypedData\<close> are the composition
  of the specification, the EIP-712 LightAccount wrapper and then the version tag, applied
  to the hash of the message and to the hash of the typed data. \<^verbatim>\<open>signUserOperation\<close>
  is not: it never asks the owner for a typed-data signature; what it returns is the
  version tag applied to the owner's plain signature of the operation hash as a raw message.
\<close>

theorem signature_composition:
  "signMessage a w m st = spec_compose_signature a w (hashMessage w m) st
   \<and> signTypedData a w td st = spec_compose_signature a w (hashTypedData w td) st
   \<and> OwnerSignTypedData td1 x \<notin> set (events_since st (snd (signUserOperation a w prm st)))
   \<and> (fst (signUserOperation a w prm st) = Inr out \<longrightarrow>
        (\<exists>c h sig. events_since st (snd (signUserOperation a w prm st)) \<noteq> []
           \<and> canonical_operation_hash a w prm c = Inr h
           \<and> last (events_since st (snd (signUserOperation a w prm st)))
               = OwnerSignMessage (MessageRaw h) (Inr sig)
           \<and> spec_version_tag (la_version a) sig = Inr out))"
proof (intro conjI impI)
  show "signMessage a w m st = spec_compose_signature a w (hashMessage w m) st"
    by (rule signMessage_composition)
  show "signTypedData a w td st = spec_compose_signature a w (hashTypedData w td) st"
    by (rule signTypedData_composition)
  obtain r1 st1 where c1:
    "(case sp_chainId prm of Some c \<Rightarrow> (Inr c, st) | None \<Rightarrow> getMemoizedChainId w st) = (r1, st1)"
    by (cases "(case sp_chainId prm of Some c \<Rightarrow> (Inr c, st) | None \<Rightarrow> getMemoizedChainId w st)")
  then have t1: "trace st1 = trace st \<or> (\<exists>x. trace st1 = trace st @ [GetChainId x])"
    by (auto split: option.splits dest: getMemoizedChainId_trace)
  show "OwnerSignTypedData td1 x \<notin> set (events_since st (snd (signUserOperation a w prm st)))"
    using c1 t1
    by (cases r1) (auto simp: signUserOperation_unfold events_since_def split: sum.splits)
  assume ok: "fst (signUserOperation a w prm st) = Inr out"
  with c1 obtain c where r1: "r1 = Inr c"
    by (cases r1) (auto simp: signUserOperation_unfold)
  with ok c1 obtain h where hh: "canonical_operation_hash a w prm c = Inr h"
    by (cases "canonical_operation_hash a w prm c") (auto simp: signUserOperation_unfold)
  with r1 ok c1 t1
  show "\<exists>c h sig. events_since st (snd (signUserOperation a w prm st)) \<noteq> []
           \<and> canonical_operation_hash a w prm c = Inr h
           \<and> last (events_since st (snd (signUserOperation a w prm st)))
               = OwnerSignMessage (MessageRaw h) (Inr sig)
           \<and> spec_version_tag (la_version a) sig = Inr out"
    by (auto simp: signUserOperation_unfold events_since_def split: sum.splits)
qed

theorem signature_composition_witness:
  "signMessage sample_account sample_world (MessageString ''hello'') initial_state
     = spec_compose_signature sample_account sample_world (Inr (Hex ''aa'')) initial_state
   \<and> fst (signUserOperation sample_account sample_world sample_request initial_state)
       = Inr (Hex ''00e191'')
   \<and> (\<exists>c h sig. canonical_operation_hash sample_account sample_world sample_request c = Inr h
         \<and> last (events_since initial_state
              (snd (signUserOperation sample_account sample_world sample_request initial_state)))
           = OwnerSignMessage (MessageRaw h) (Inr sig)
         \<and> spec_version_tag (la_version sample_account) sig = Inr (Hex ''00e191''))"
proof -
  have h: "hashMessage sample_world (MessageString ''hello'') = Inr (Hex ''aa'')"
    by (simp add: sample_world_def)
  have ok: "fst (signUserOperation sample_account sample_world sample_request initial_state)
              = Inr (Hex ''00e191'')"
    by (simp add: sample_signUserOperation)
  show ?thesis
    using signature_composition [where a = sample_account and w = sample_world
        and m = "MessageString ''hello''" and st = initial_state and prm = sample_request
        and out = "Hex ''00e191''"] h ok
    by auto
qed

text \<open>
  Claim C1 as stated fails for \<^verbatim>\<open>signUserOperation\<close>. On the concrete world it returns
  the tagged plain signature and its trace holds no typed-data signature, where the
  composition over the same operation hash returns the tagged wrapper signature.
\<close>

theorem signUserOperation_skips_wrapper:
  "fst (signUserOperation sample_account sample_world sample_request initial_state)
     = Inr (Hex ''00e191'')
   \<and> fst (spec_compose_signature sample_account sample_world
            (canonical_operation_hash sample_account sample_world sample_request 1)
            initial_state)
     = Inr (Hex ''001271'')
   \<and> trace (snd (signUserOperation sample_account sample_world sample_request initial_state))
     = [GetChainId (Inr 1), OwnerSignMessage (MessageRaw (Hex ''07c1'')) (Inr (Hex ''e191''))]
   \<and> signUserOperation sample_account sample_world sample_request initial_state
     \<noteq> spec_compose_signature sample_account sample_world
          (canonical_operation_hash sample_account sample_world sample_request 1) initial_state"
proof -
  have a: "fst (spec_compose_signature sample_account sample_world
            (canonical_operation_hash sample_account sample_world sample_request 1)
            initial_state) = Inr (Hex ''001271'')"
    by (simp add: spec_compose_signature_def spec_version_tag_def canonical_operation_hash_def
          sample_defs method_defs)
  have b: "fst (signUserOperation sample_account sample_world sample_request initial_state)
             = Inr (Hex ''00e191'')"
    and c: "trace (snd (signUserOperation sample_account sample_world sample_request initial_state))
     = [GetChainId (Inr 1), OwnerSignMessage (MessageRaw (Hex ''07c1'')) (Inr (Hex ''e191''))]"
    by (simp_all add: sample_signUserOperation)
  from a b have "fst (signUserOperation sample_account sample_world sample_request initial_state)
      \<noteq> fst (spec_compose_signature sample_account sample_world
            (canonical_operation_hash sample_account sample_world sample_request 1)
            initial_state)"
    by simp
  then have "signUserOperation sample_account sample_world sample_request initial_state
     \<noteq> spec_compose_signature sample_account sample_world
          (canonical_operation_hash sample_account sample_world sample_request 1) initial_state"
    by auto
  with a b c show ?thesis by simp
qed

text \<open>
  Claim C2, as amended. \<^verbatim>\<open>signUserOperation\<close> computes the canonical hash of the
  operation with its signature set to \<^verbatim>\<open>0x\<close>, by the hashing rule of the configured
  entry-point version (0.6 when 0.6 is configured, 0.7 when 0.7 or nothing is configured:
  the two are kept apart) and for a chain id that is the one the request carries when it
  carries one (then no chain id is resolved) and the resolved, memoised chain id otherwise.
  Whenever that hash is computed, the owner is asked for one signature, of exactly that hash
  as a raw message. When the chain id cannot be resolved or the hashing throws, the owner is
  not asked and the failure is the result.
\<close>

theorem signUserOperation_hash:
  "(sp_chainId prm = Some c
      \<and> getUserOperationHash w ((sp_userOperation prm)\<lparr>uo_signature := Hex []\<rparr>)
          (ep_address (la_entryPoint a)) (ep_version (la_entryPoint a)) c = Inr h
      \<longrightarrow> events_since st (snd (signUserOperation a w prm st))
            = [OwnerSignMessage (MessageRaw h)
                 (owner_signMessage w (length (trace st)) (MessageRaw h))]
        \<and> chainId (snd (signUserOperation a w prm st)) = chainId st)
   \<and> (sp_chainId prm = None \<and> getMemoizedChainId w st = (Inr c, st')
      \<and> getUserOperationHash w ((sp_userOperation prm)\<lparr>uo_signature := Hex []\<rparr>)
          (ep_address (la_entryPoint a)) (ep_version (la_entryPoint a)) c = Inr h
      \<longrightarrow> trace (snd (signUserOperation a w prm st))
            = trace st' @ [OwnerSignMessage (MessageRaw h)
                             (owner_signMessage w (length (trace st')) (MessageRaw h))])
   \<and> (sp_chainId prm = None \<and> getMemoizedChainId w st = (Inl e, st')
      \<longrightarrow> signUserOperation a w prm st = (Inl e, st'))
   \<and> ((case sp_chainId prm of Some k \<Rightarrow> (Inr k, st) | None \<Rightarrow> getMemoizedChainId w st)
        = (Inr c, st')
      \<and> getUserOperationHash w ((sp_userOperation prm)\<lparr>uo_signature := Hex []\<rparr>)
          (ep_address (la_entryPoint a)) (ep_version (la_entryPoint a)) c = Inl msg
      \<longrightarrow> signUserOperation a w prm st = (Inl (External msg), st'))
   \<and> (toLightSmartAccount p = Inr (a, st0)
      \<longrightarrow> (optional_chain (par_entryPoint p) epp_version = Some ''0.6''
             \<longrightarrow> ep_version (la_entryPoint a) = ''0.6'')
        \<and> (optional_chain (par_entryPoint p) epp_version = Some ''0.7''
             \<longrightarrow> ep_version (la_entryPoint a) = ''0.7'')
        \<and> (optional_chain (par_entryPoint p) epp_version = None
             \<longrightarrow> ep_version (la_entryPoint a) = ''0.7'')
        \<and> ep_address (la_entryPoint a)
            = nullish (optional_chain (par_entryPoint p) epp_address) entryPoint07Address)
   \<and> (toLightSmartAccount p = Inr (a, st0)
      \<and> optional_chain (par_entryPoint p) epp_version = Some ''0.6''
      \<and> (case sp_chainId prm of Some k \<Rightarrow> (Inr k, st) | None \<Rightarrow> getMemoizedChainId w st)
          = (Inr c, st')
      \<and> getUserOperationHash w ((sp_userOperation prm)\<lparr>uo_signature := Hex []\<rparr>)
          (ep_address (la_entryPoint a)) ''0.6'' c = Inr h
      \<longrightarrow> trace (snd (signUserOperation a w prm st))
            = trace st' @ [OwnerSignMessage (MessageRaw h)
                             (owner_signMessage w (length (trace st')) (MessageRaw h))])
   \<and> (toLightSmartAccount p = Inr (a, st0)
      \<and> (optional_chain (par_entryPoint p) epp_version = Some ''0.7''
          \<or> optional_chain (par_entryPoint p) epp_version = None)
      \<and> (case sp_chainId prm of Some k \<Rightarrow> (Inr k, st) | None \<Rightarrow> getMemoizedChainId w st)
          = (Inr c, st')
      \<and> getUserOperationHash w ((sp_userOperation prm)\<lparr>uo_signature := Hex []\<rparr>)
          (ep_address (la_entryPoint a)) ''0.7'' c = Inr h
      \<longrightarrow> trace (snd (signUserOperation a w prm st))
            = trace st' @ [OwnerSignMessage (MessageRaw h)
                             (owner_signMessage w (length (trace st')) (MessageRaw h))])"
proof -
  have v: "toLightSmartAccount p = Inr (a, st0) \<Longrightarrow>
             ep_version (la_entryPoint a)
               = nullish (optional_chain (par_entryPoint p) epp_version) ''0.7''
             \<and> ep_address (la_entryPoint a)
               = nullish (optional_chain (par_entryPoint p) epp_address) entryPoint07Address"
    by (auto simp: toLightSmartAccount_def entryPoint_of_def split: sum.splits)
  have reached:
    "(case sp_chainId prm of Some k \<Rightarrow> (Inr k, st) | None \<Rightarrow> getMemoizedChainId w st)
        = (Inr c, st') \<Longrightarrow>
     getUserOperationHash w ((sp_userOperation prm)\<lparr>uo_signature := Hex []\<rparr>)
          (ep_address (la_entryPoint a)) (ep_version (la_entryPoint a)) c = Inr h \<Longrightarrow>
     trace (snd (signUserOperation a w prm st))
       = trace st' @ [OwnerSignMessage (MessageRaw h)
                        (owner_signMessage w (length (trace st')) (MessageRaw h))]"
    by (simp add: signUserOperation_unfold canonical_operation_hash_def)
  have failed:
    "(case sp_chainId prm of Some k \<Rightarrow> (Inr k, st) | None \<Rightarrow> getMemoizedChainId w st)
        = (Inr c, st') \<Longrightarrow>
     getUserOperationHash w ((sp_userOperation prm)\<lparr>uo_signature := Hex []\<rparr>)
          (ep_address (la_entryPoint a)) (ep_version (la_entryPoint a)) c = Inl msg \<Longrightarrow>
     signUserOperation a w prm st = (Inl (External msg), st')"
    by (simp add: signUserOperation_unfold canonical_operation_hash_def)
  show ?thesis
  proof (intro conjI impI; (elim conjE)?)
    assume "sp_chainId prm = Some c"
      and "getUserOperationHash w ((sp_userOperation prm)\<lparr>uo_signature := Hex []\<rparr>)
             (ep_address (la_entryPoint a)) (ep_version (la_entryPoint a)) c = Inr h"
    then show "events_since st (snd (signUserOperation a w prm st))
            = [OwnerSignMessage (MessageRaw h)
                 (owner_signMessage w (length (trace st)) (MessageRaw h))]"
      and "chainId (snd (signUserOperation a w prm st)) = chainId st"
      by (simp_all add: signUserOperation_unfold canonical_operation_hash_def events_since_def)
  next
    assume "sp_chainId prm = None" and "getMemoizedChainId w st = (Inr c, st')"
      and "getUserOperationHash w ((sp_userOperation prm)\<lparr>uo_signature := Hex []\<rparr>)
             (ep_address (la_entryPoint a)) (ep_version (la_entryPoint a)) c = Inr h"
    then show "trace (snd (signUserOperation a w prm st))
            = trace st' @ [OwnerSignMessage (MessageRaw h)
                             (owner_signMessage w (length (trace st')) (MessageRaw h))]"
      by (simp add: signUserOperation_unfold canonical_operation_hash_def)
  next
    assume "sp_chainId prm = None" and "getMemoizedChainId w st = (Inl e, st')"
    then show "signUserOperation a w prm st = (Inl e, st')"
      by (simp add: signUserOperation_unfold)
  next
    assume "(case sp_chainId prm of Some k \<Rightarrow> (Inr k, st) | None \<Rightarrow> getMemoizedChainId w st)
        = (Inr c, st')"
      and "getUserOperationHash w ((sp_userOperation prm)\<lparr>uo_signature := Hex []\<rparr>)
          (ep_address (la_entryPoint a)) (ep_version (la_entryPoint a)) c = Inl msg"
    then show "signUserOperation a w prm st = (Inl (External msg), st')"
      by (rule failed)
  next
    assume "toLightSmartAccount p = Inr (a, st0)"
      and "optional_chain (par_entryPoint p) epp_version = Some ''0.6''"
    with v show "ep_version (la_entryPoint a) = ''0.6''" by (simp add: nullish_def)
  next
    assume "toLightSmartAccount p = Inr (a, st0)"
      and "optional_chain (par_entryPoint p) epp_version = Some ''0.7''"
    with v show "ep_version (la_entryPoint a) = ''0.7''" by (simp add: nullish_def)
  next
    assume "toLightSmartAccount p = Inr (a, st0)"
      and "optional_chain (par_entryPoint p) epp_version = None"
    with v show "ep_version (la_entryPoint a) = ''0.7''" by (simp add: nullish_def)
  next
    assume "toLightSmartAccount p = Inr (a, st0)"
    with v show "ep_address (la_entryPoint a)
        = nullish (optional_chain (par_entryPoint p) epp_address) entryPoint07Address"
      by simp
  next
    assume "toLightSmartAccount p = Inr (a, st0)"
      and "optional_chain (par_entryPoint p) epp_version = Some ''0.6''"
      and r: "(case sp_chainId prm of Some k \<Rightarrow> (Inr k, st) | None \<Rightarrow> getMemoizedChainId w st)
          = (Inr c, st')"
      and h: "getUserOperationHash w ((sp_userOperation prm)\<lparr>uo_signature := Hex []\<rparr>)
          (ep_address (la_entryPoint a)) ''0.6'' c = Inr h"
    with v have "ep_version (la_entryPoint a) = ''0.6''" by (simp add: nullish_def)
    with reached [OF r] h
    show "trace (snd (signUserOperation a w prm st))
            = trace st' @ [OwnerSignMessage (MessageRaw h)
                             (owner_signMessage w (length (trace st')) (MessageRaw h))]"
      by simp
  next
    assume "toLightSmartAccount p = Inr (a, st0)"
      and "optional_chain (par_entryPoint p) epp_version = Some ''0.7''
          \<or> optional_chain (par_entryPoint p) epp_version = None"
      and r: "(case sp_chainId prm of Some k \<Rightarrow> (Inr k, st) | None \<Rightarrow> getMemoizedChainId w st)
          = (Inr c, st')"
      and h: "getUserOperationHash w ((sp_userOperation prm)\<lparr>uo_signature := Hex []\<rparr>)
          (ep_address (la_entryPoint a)) ''0.7'' c = Inr h"
    with v have "ep_version (la_entryPoint a) = ''0.7''" by (auto simp: nullish_def)
    with reached [OF r] h
    show "trace (snd (signUserOperation a w prm st))
            = trace st' @ [OwnerSignMessage (MessageRaw h)
                             (owner_signMessage w (length (trace st')) (MessageRaw h))]"
      by simp
  qed
qed

text \<open>
  On the concrete world: an account on entry point 0.7 and one on 0.6 sign different hashes
  of the same operation; a request with its own chain id; a hashing that throws; a chain id
  that cannot be fetched.
\<close>

theorem signUserOperation_hash_witness:
  "trace (snd (signUserOperation sample_account sample_world sample_request initial_state))
     = [GetChainId (Inr 1), OwnerSignMessage (MessageRaw (Hex ''07c1'')) (Inr (Hex ''e191''))]
   \<and> trace (snd (signUserOperation sample_account_v1 sample_world sample_request initial_state))
     = [GetChainId (Inr 1), OwnerSignMessage (MessageRaw (Hex ''06c1'')) (Inr (Hex ''e191''))]
   \<and> events_since initial_state
        (snd (signUserOperation sample_account sample_world override_request initial_state))
     = [OwnerSignMessage (MessageRaw (Hex ''07c0'')) (Inr (Hex ''e191''))]
   \<and> signUserOperation sample_account failing_hash_world sample_request initial_state
     = (Inl (External ''invalid user operation''),
        \<lparr> accountAddress = None, chainId = Some 1, trace = [GetChainId (Inr 1)] \<rparr>)
   \<and> signUserOperation sample_account offline_world sample_request initial_state
     = (Inl (External ''network error''),
        \<lparr> accountAddress = None, chainId = None,
          trace = [GetChainId (Inl ''network error'')] \<rparr>)
   \<and> ep_version (la_entryPoint sample_account) = ''0.7''
   \<and> ep_version (la_entryPoint sample_account_v1) = ''0.6''"
proof -
  let ?S = "\<lparr> accountAddress = None, chainId = Some 1, trace = [GetChainId (Inr 1)] \<rparr>"
  let ?F = "\<lparr> accountAddress = None, chainId = None,
              trace = [GetChainId (Inl ''network error'')] \<rparr>"
  have r: "(case sp_chainId sample_request of
              Some k \<Rightarrow> (Inr k, initial_state)
            | None \<Rightarrow> getMemoizedChainId sample_world initial_state) = (Inr 1, ?S)"
    and rf: "(case sp_chainId sample_request of
              Some k \<Rightarrow> (Inr k, initial_state)
            | None \<Rightarrow> getMemoizedChainId failing_hash_world initial_state) = (Inr 1, ?S)"
    and off: "getMemoizedChainId offline_world initial_state = (Inl (External ''network error''), ?F)"
    by (simp_all add: sample_request_def sample_getMemoizedChainId)
       (simp_all add: failing_hash_world_def offline_world_def sample_defs method_defs)
  have n: "sp_chainId sample_request = None" and o: "sp_chainId override_request = Some 5"
    by (simp_all add: sample_request_def override_request_def)
  have u7: "getUserOperationHash sample_world
              ((sp_userOperation sample_request)\<lparr>uo_signature := Hex []\<rparr>)
              (ep_address (la_entryPoint sample_account)) ''0.7'' 1 = Inr (Hex ''07c1'')"
    and u6: "getUserOperationHash sample_world
              ((sp_userOperation sample_request)\<lparr>uo_signature := Hex []\<rparr>)
              (ep_address (la_entryPoint sample_account_v1)) ''0.6'' 1 = Inr (Hex ''06c1'')"
    and u5: "getUserOperationHash sample_world
              ((sp_userOperation override_request)\<lparr>uo_signature := Hex []\<rparr>)
              (ep_address (la_entryPoint sample_account))
              (ep_version (la_entryPoint sample_account)) 5 = Inr (Hex ''07c0'')"
    and uf: "getUserOperationHash failing_hash_world
              ((sp_userOperation sample_request)\<lparr>uo_signature := Hex []\<rparr>)
              (ep_address (la_entryPoint sample_account))
              (ep_version (la_entryPoint sample_account)) 1 = Inl ''invalid user operation''"
    by (simp_all add: failing_hash_world_def sample_defs)
  have sm: "owner_signMessage sample_world k msg = Inr (Hex ''e191'')" for k msg
    by (simp add: sample_world_def)
  have p7: "optional_chain (par_entryPoint sample_parameters) epp_version = None"
    and p6: "optional_chain (par_entryPoint sample_parameters_v1) epp_version = Some ''0.6''"
    by (simp_all add: sample_defs)
  have w7: "trace (snd (signUserOperation sample_account sample_world sample_request
                          initial_state))
     = [GetChainId (Inr 1), OwnerSignMessage (MessageRaw (Hex ''07c1'')) (Inr (Hex ''e191''))]"
    and e7: "ep_version (la_entryPoint sample_account) = ''0.7''"
    using signUserOperation_hash [where a = sample_account and w = sample_world
        and prm = sample_request and st = initial_state and c = 1 and st' = ?S
        and h = "Hex ''07c1''" and p = sample_parameters and st0 = initial_state]
      r u7 sm p7 sample_constructed
    by simp_all
  have w6: "trace (snd (signUserOperation sample_account_v1 sample_world sample_request
                          initial_state))
     = [GetChainId (Inr 1), OwnerSignMessage (MessageRaw (Hex ''06c1'')) (Inr (Hex ''e191''))]"
    and e6: "ep_version (la_entryPoint sample_account_v1) = ''0.6''"
    using signUserOperation_hash [where a = sample_account_v1 and w = sample_world
        and prm = sample_request and st = initial_state and c = 1 and st' = ?S
        and h = "Hex ''06c1''" and p = sample_parameters_v1 and st0 = initial_state]
      r u6 sm p6 sample_constructed_v1
    by simp_all
  have w5: "events_since initial_state
        (snd (signUserOperation sample_account sample_world override_request initial_state))
     = [OwnerSignMessage (MessageRaw (Hex ''07c0'')) (Inr (Hex ''e191''))]"
    using signUserOperation_hash [where a = sample_account and w = sample_world
        and prm = override_request and st = initial_state and c = 5 and h = "Hex ''07c0''"]
      o u5 sm
    by simp
  have wf: "signUserOperation sample_account failing_hash_world sample_request initial_state
     = (Inl (External ''invalid user operation''), ?S)"
    using signUserOperation_hash [where a = sample_account and w = failing_hash_world
        and prm = sample_request and st = initial_state and c = 1 and st' = ?S
        and msg = "''invalid user operation''"]
      rf uf
    by simp
  have wo: "signUserOperation sample_account offline_world sample_request initial_state
     = (Inl (External ''network error''), ?F)"
    using signUserOperation_hash [where a = sample_account and w = offline_world
        and prm = sample_request and st = initial_state and st' = ?F
        and e = "External ''network error''"]
      n off
    by simp
  show ?thesis
    by (simp add: w7 w6 w5 wf wo e7 e6)
qed

text \<open>
  Claim C2 as stated fails for a request with a chain id of its own: the account would
  resolve chain 1, the request says 5, and the owner signs the hash for chain 5; no chain id
  is resolved or cached.
\<close>

theorem signUserOperation_chainId_override:
  "fst (getMemoizedChainId sample_world initial_state) = Inr 1
   \<and> canonical_operation_hash sample_account sample_world override_request 1
       = Inr (Hex ''07c1'')
   \<and> signUserOperation sample_account sample_world override_request initial_state
       = (Inr (Hex ''00e191''),
          \<lparr> accountAddress = None, chainId = None,
            trace = [OwnerSignMessage (MessageRaw (Hex ''07c0'')) (Inr (Hex ''e191''))] \<rparr>)"
  by (simp add: signUserOperation_def canonical_operation_hash_def sample_defs method_defs)

text \<open>
  Claim C4, as amended. With a version tag that is not supported, \<^verbatim>\<open>signUserOperation\<close>
  never returns a signature, so no default encoding is used. The version is only looked at
  after the owner has signed: the failure is the unknown-version error exactly when the last
  interaction of the call is a successful signature of the owner, and otherwise it is the
  failure of a collaborator (the chain id fetch or the signing itself).
\<close>

theorem unsupported_version_fails_after_signing:
  "la_version a \<noteq> ''1.1.0'' \<and> la_version a \<noteq> ''2.0.0'' \<longrightarrow>
     (\<exists>e. fst (signUserOperation a w prm st) = Inl e)
     \<and> (fst (signUserOperation a w prm st) = Inl (Error ''Unknown Light Account version'')
          \<longleftrightarrow> events_since st (snd (signUserOperation a w prm st)) \<noteq> []
              \<and> (\<exists>msg sig. last (events_since st (snd (signUserOperation a w prm st)))
                              = OwnerSignMessage msg (Inr sig)))
     \<and> (fst (signUserOperation a w prm st) \<noteq> Inl (Error ''Unknown Light Account version'')
          \<longrightarrow> (\<exists>m. fst (signUserOperation a w prm st) = Inl (External m)))"
proof (intro impI)
  assume v: "la_version a \<noteq> ''1.1.0'' \<and> la_version a \<noteq> ''2.0.0''"
  obtain r1 st1 where c1:
    "(case sp_chainId prm of Some c \<Rightarrow> (Inr c, st) | None \<Rightarrow> getMemoizedChainId w st) = (r1, st1)"
    by (cases "(case sp_chainId prm of Some c \<Rightarrow> (Inr c, st) | None \<Rightarrow> getMemoizedChainId w st)")
  then have t1: "trace st1 = trace st \<or> (\<exists>x. trace st1 = trace st @ [GetChainId x])"
    by (auto split: option.splits dest: getMemoizedChainId_trace)
  have e1: "r1 = Inl e \<Longrightarrow> \<exists>m. e = External m" for e
    using c1 by (auto split: option.splits dest: getMemoizedChainId_error)
  show "(\<exists>e. fst (signUserOperation a w prm st) = Inl e)
     \<and> (fst (signUserOperation a w prm st) = Inl (Error ''Unknown Light Account version'')
          \<longleftrightarrow> events_since st (snd (signUserOperation a w prm st)) \<noteq> []
              \<and> (\<exists>msg sig. last (events_since st (snd (signUserOperation a w prm st)))
                              = OwnerSignMessage msg (Inr sig)))
     \<and> (fst (signUserOperation a w prm st) \<noteq> Inl (Error ''Unknown Light Account version'')
          \<longrightarrow> (\<exists>m. fst (signUserOperation a w prm st) = Inl (External m)))"
  proof (cases r1)
    case (Inl e)
    with c1 t1 e1 [of e] show ?thesis
      by (auto simp: signUserOperation_unfold events_since_def)
  next
    case (Inr c)
    with c1 t1 v show ?thesis
      by (auto simp: signUserOperation_unfold events_since_def spec_version_tag_def
               split: sum.splits)
  qed
qed

theorem unsupported_version_fails_after_signing_witness:
  "la_version unsupported_account \<noteq> ''1.1.0'' \<and> la_version unsupported_account \<noteq> ''2.0.0''
   \<and> toLightSmartAccount unsupported_parameters = Inr (unsupported_account, initial_state)
   \<and> fst (signUserOperation unsupported_account sample_world sample_request initial_state)
       = Inl (Error ''Unknown Light Account version'')
   \<and> (\<exists>msg sig. last (events_since initial_state
          (snd (signUserOperation unsupported_account sample_world sample_request initial_state)))
         = OwnerSignMessage msg (Inr sig))"
proof -
  have v: "la_version unsupported_account \<noteq> ''1.1.0'' \<and> la_version unsupported_account \<noteq> ''2.0.0''"
    by (simp add: unsupported_account_def)
  have r: "fst (signUserOperation unsupported_account sample_world sample_request initial_state)
       = Inl (Error ''Unknown Light Account version'')"
    by (simp add: sample_signUserOperation_unsupported)
  from unsupported_version_fails_after_signing [where a = unsupported_account
      and w = sample_world and prm = sample_request and st = initial_state, rule_format, OF v]
  show ?thesis using v r sample_unsupported_constructed by simp
qed

text \<open>
  Claim C4 as stated fails: the account below has version 3.0.0, and the call asks the
  network for the chain id and the owner for a signature before it raises the error.
\<close>

theorem unsupported_version_signs_first:
  "toLightSmartAccount unsupported_parameters = Inr (unsupported_account, initial_state)
   \<and> signUserOperation unsupported_account sample_world sample_request initial_state =
     (Inl (Error ''Unknown Light Account version''),
      \<lparr> accountAddress = None, chainId = Some 1,
        trace = [GetChainId (Inr 1),
                 OwnerSignMessage (MessageRaw (Hex ''07c1'')) (Inr (Hex ''e191''))] \<rparr>)"
  by (simp add: signUserOperation_def toLightSmartAccount_def getDefaultAddresses_def
        sample_defs method_defs)

end
